theory Spec2Isabelle
  imports Complex_Main
begin

section \<open>Numbers and rectangles\<close>

text \<open>
  Python floats (\<^verbatim>\<open>dt\<close>, the components of \<^verbatim>\<open>pygame.Vector2\<close>, ages and lifetimes) are
  idealised as reals: rounding of the floating-point operations is not modelled.
  The coordinates of a \<^verbatim>\<open>pygame.Rect\<close> are integers (unbounded here; pygame stores C ints).
  Assigning a float to a coordinate of a Rect converts it to an integer. The conversion
  belongs to pygame and is not the same in all its versions: up to pygame 2.2 the fractional
  part is dropped (rounding toward zero, \<open>trunc\<close> below), later versions round to the nearest
  integer. The position updates are therefore written for an arbitrary conversion; the
  physics step and the main loop fix it to \<open>trunc\<close>.
\<close>

definition trunc :: "real \<Rightarrow> int" where
  "trunc r = (if 0 \<le> r then \<lfloor>r\<rfloor> else \<lceil>r\<rceil>)"

text \<open>What truncation and rounding to the nearest integer have in common: when an integer
  is closer than half a pixel to the value and not farther from zero than the value, it is
  the result.\<close>

definition rect_conversion :: "(real \<Rightarrow> int) \<Rightarrow> bool" where
  "rect_conversion conv \<longleftrightarrow>
     (\<forall>r n. \<bar>r - real_of_int n\<bar> < 1 / 2 \<and> \<bar>real_of_int n\<bar> \<le> \<bar>r\<bar> \<longrightarrow> conv r = n)"

record rect =
  rect_x :: int
  rect_y :: int
  rect_width :: int
  rect_height :: int

definition Rect :: "int \<Rightarrow> int \<Rightarrow> int \<Rightarrow> int \<Rightarrow> rect" where
  "Rect x y w h = \<lparr>rect_x = x, rect_y = y, rect_width = w, rect_height = h\<rparr>"

definition rect_left :: "rect \<Rightarrow> int" where
  "rect_left r = rect_x r"

definition rect_right :: "rect \<Rightarrow> int" where
  "rect_right r = rect_x r + rect_width r"

definition rect_top :: "rect \<Rightarrow> int" where
  "rect_top r = rect_y r"

definition rect_bottom :: "rect \<Rightarrow> int" where
  "rect_bottom r = rect_y r + rect_height r"

text \<open>The centre of a Rect: pygame halves the size rounding down.\<close>

definition rect_center :: "rect \<Rightarrow> int \<times> int" where
  "rect_center r = (rect_x r + rect_width r div 2, rect_y r + rect_height r div 2)"

text \<open>\<^verbatim>\<open>rect.x += d\<close> and \<^verbatim>\<open>rect.y += d\<close> with a float \<open>d\<close>: the sum is a float, the
  assignment converts it.\<close>

definition add_x_by :: "(real \<Rightarrow> int) \<Rightarrow> real \<Rightarrow> rect \<Rightarrow> rect" where
  "add_x_by conv d r = r\<lparr>rect_x := conv (real_of_int (rect_x r) + d)\<rparr>"

definition add_y_by :: "(real \<Rightarrow> int) \<Rightarrow> real \<Rightarrow> rect \<Rightarrow> rect" where
  "add_y_by conv d r = r\<lparr>rect_y := conv (real_of_int (rect_y r) + d)\<rparr>"

definition add_x :: "real \<Rightarrow> rect \<Rightarrow> rect" where
  "add_x d r = add_x_by trunc d r"

definition add_y :: "real \<Rightarrow> rect \<Rightarrow> rect" where
  "add_y d r = add_y_by trunc d r"

text \<open>\<^verbatim>\<open>rect.bottom = v\<close> moves the rectangle, keeping its size.\<close>

definition set_bottom :: "int \<Rightarrow> rect \<Rightarrow> rect" where
  "set_bottom v r = r\<lparr>rect_y := v - rect_height r\<rparr>"

text \<open>\<^verbatim>\<open>Rect.colliderect\<close> of pygame 2: a rectangle of zero width or height collides with
  nothing; rectangles that only touch along an edge do not collide.\<close>

definition colliderect :: "rect \<Rightarrow> rect \<Rightarrow> bool" where
  "colliderect a b =
     (if rect_width a = 0 \<or> rect_height a = 0 \<or> rect_width b = 0 \<or> rect_height b = 0
      then False
      else min (rect_x a) (rect_x a + rect_width a) < max (rect_x b) (rect_x b + rect_width b)
         \<and> min (rect_y a) (rect_y a + rect_height a) < max (rect_y b) (rect_y b + rect_height b)
         \<and> max (rect_x a) (rect_x a + rect_width a) > min (rect_x b) (rect_x b + rect_width b)
         \<and> max (rect_y a) (rect_y a + rect_height a) > min (rect_y b) (rect_y b + rect_height b))"

text \<open>\<^verbatim>\<open>Rect.collidepoint\<close>: points on the right or bottom edge are outside.\<close>

definition collidepoint :: "rect \<Rightarrow> int \<times> int \<Rightarrow> bool" where
  "collidepoint r p =
     (rect_x r \<le> fst p \<and> fst p < rect_x r + rect_width r
    \<and> rect_y r \<le> snd p \<and> snd p < rect_y r + rect_height r)"

section \<open>Sprites and the global state of the module\<close>

text \<open>
  Sprites are Python objects that are shared by reference between the registry, the
  platform list, the click and overlap tables, follow targets and the game script. An object
  is named by its identity (\<open>sid\<close>) and the store \<open>objs\<close> maps identities to the current
  attribute values. Attributes that \<^verbatim>\<open>hasattr\<close> may find missing are optional.
\<close>

type_synonym sid = nat
type_synonym surface = nat
type_synonym colour = "nat \<times> nat \<times> nat"
type_synonym key = int

record sprite =
  image_surf :: "surface option"
  rect :: rect
  color :: colour
  speed_x :: real
  speed_y :: real
  lifetime :: "real option"
  age :: real
  follow :: "(sid \<times> real) option"
  bounce :: bool
  alive :: bool
  gravity :: "real option"
  on_ground :: "bool option"
  control_speed :: "real option"

text \<open>
  Callbacks are function objects. The functions of the game script are opaque: they are
  named by a number and their effect is a parameter of the main loop. The one closure that
  the module itself registers is the handler of \<^verbatim>\<open>control_arrows\<close>, which captures the
  sprite and the bounds; only the list of pre-physics hooks ever holds it.
\<close>

type_synonym cb = nat

datatype hook = Hook cb | ArrowHandler sid "(real \<times> real \<times> real \<times> real) option"

datatype exn = StdException string | BaseException string

record 'u world =
  objs :: "sid \<Rightarrow> sprite"
  next_id :: sid
  sprites :: "sid list"
  platforms :: "sid list"
  overlap_handlers :: "(sid \<times> sid \<times> cb) list"
  key_handlers :: "(key \<times> cb list) list"
  click_handlers :: "(sid \<times> cb list) list"
  update_handlers :: "cb list"
  game_update_handlers :: "hook list"
  game_start_handlers :: "cb list"
  draw_commands :: "(int \<times> int \<times> int) list"
  text_commands :: "(string \<times> int \<times> int \<times> int) list"
  image_cache :: "(string \<times> int \<times> int) \<Rightarrow> surface option"
  game_over_flag :: bool
  game_over_msg :: string
  stdout :: "string list"
  user :: 'u

definition upd :: "sid \<Rightarrow> (sprite \<Rightarrow> sprite) \<Rightarrow> 'u world \<Rightarrow> 'u world" where
  "upd s f w = w\<lparr>objs := (objs w)(s := f (objs w s))\<rparr>"

section \<open>The physics step\<close>

text \<open>Follow: move toward the centre of the target by \<open>speed * dt\<close>; the target is read
  from the store, the velocity field is not touched. \<open>follow_delta\<close> is the vector
  \<^verbatim>\<open>vel\<close> of the source, when there is one.\<close>

definition follow_delta :: "real \<Rightarrow> (sid \<Rightarrow> sprite) \<Rightarrow> sprite \<Rightarrow> (real \<times> real) option" where
  "follow_delta dt store spr =
     (case follow spr of
        None \<Rightarrow> None
      | Some (targ, spd) \<Rightarrow>
          (let dirx = real_of_int (fst (rect_center (rect (store targ))))
                    - real_of_int (fst (rect_center (rect spr)));
               diry = real_of_int (snd (rect_center (rect (store targ))))
                    - real_of_int (snd (rect_center (rect spr)));
               len = sqrt (dirx * dirx + diry * diry)
           in if len > 0
              then Some (dirx / len * spd * dt, diry / len * spd * dt)
              else None))"

definition follow_step_by ::
  "(real \<Rightarrow> int) \<Rightarrow> real \<Rightarrow> (sid \<Rightarrow> sprite) \<Rightarrow> sprite \<Rightarrow> sprite" where
  "follow_step_by conv dt store spr =
     (case follow_delta dt store spr of
        None \<Rightarrow> spr
      | Some (vx, vy) \<Rightarrow> spr\<lparr>rect := add_y_by conv vy (add_x_by conv vx (rect spr))\<rparr>)"

definition follow_step :: "real \<Rightarrow> (sid \<Rightarrow> sprite) \<Rightarrow> sprite \<Rightarrow> sprite" where
  "follow_step dt store spr = follow_step_by trunc dt store spr"

definition gravity_step :: "real \<Rightarrow> sprite \<Rightarrow> sprite" where
  "gravity_step dt spr =
     (case gravity spr of
        None \<Rightarrow> spr
      | Some g \<Rightarrow> spr\<lparr>speed_y := speed_y spr + g * dt\<rparr>)"

definition movement_by :: "(real \<Rightarrow> int) \<Rightarrow> real \<Rightarrow> sprite \<Rightarrow> sprite" where
  "movement_by conv dt spr =
     spr\<lparr>rect := add_y_by conv (speed_y spr * dt) (add_x_by conv (speed_x spr * dt) (rect spr))\<rparr>"

definition movement :: "real \<Rightarrow> sprite \<Rightarrow> sprite" where
  "movement dt spr = movement_by trunc dt spr"

definition bounce_x :: "int \<Rightarrow> sprite \<Rightarrow> sprite" where
  "bounce_x width spr =
     (if rect_left (rect spr) < 0 \<or> rect_right (rect spr) > width
      then spr\<lparr>speed_x := speed_x spr * (- 1),
               rect := (rect spr)\<lparr>rect_x := max 0 (min (rect_x (rect spr)) (width - rect_width (rect spr)))\<rparr>\<rparr>
      else spr)"

definition bounce_y :: "int \<Rightarrow> sprite \<Rightarrow> sprite" where
  "bounce_y height spr =
     (if rect_top (rect spr) < 0 \<or> rect_bottom (rect spr) > height
      then spr\<lparr>speed_y := speed_y spr * (- 1),
               rect := (rect spr)\<lparr>rect_y := max 0 (min (rect_y (rect spr)) (height - rect_height (rect spr)))\<rparr>\<rparr>
      else spr)"

definition edge_bounce :: "int \<Rightarrow> int \<Rightarrow> sprite \<Rightarrow> sprite" where
  "edge_bounce width height spr =
     (if bounce spr then bounce_y height (bounce_x width spr) else spr)"

text \<open>The loop over the platforms, with its \<^verbatim>\<open>break\<close> at the first overlap. Platforms are
  sprites and are read from the store.\<close>

fun land :: "sid \<Rightarrow> sid list \<Rightarrow> 'u world \<Rightarrow> 'u world" where
  "land s [] w = w"
| "land s (plat # plats) w =
     (if colliderect (rect (objs w s)) (rect (objs w plat))
      then upd s (\<lambda>spr. spr\<lparr>rect := set_bottom (rect_top (rect (objs w plat))) (rect spr),
                             speed_y := 0, on_ground := Some True\<rparr>) w
      else land s plats w)"

definition platform_step :: "sid \<Rightarrow> 'u world \<Rightarrow> 'u world" where
  "platform_step s w =
     (if gravity (objs w s) \<noteq> None \<and> speed_y (objs w s) \<ge> 0
      then land s (platforms w) (upd s (\<lambda>spr. spr\<lparr>on_ground := Some False\<rparr>) w)
      else w)"

definition destroy :: "sprite \<Rightarrow> sprite" where
  "destroy spr = spr\<lparr>alive := False\<rparr>"

definition lifetime_step :: "real \<Rightarrow> sprite \<Rightarrow> sprite" where
  "lifetime_step dt spr =
     (case lifetime spr of
        None \<Rightarrow> spr
      | Some l \<Rightarrow>
          (let spr' = spr\<lparr>age := age spr + dt\<rparr>
           in if age spr' \<ge> l then destroy spr' else spr'))"

text \<open>The body of the loop \<^verbatim>\<open>for spr in list(_sprites)\<close>: a sprite that is not alive is
  removed from the registry and skipped; a live one goes through the six sub-steps in order.\<close>

definition integrate :: "real \<Rightarrow> sid \<Rightarrow> 'u world \<Rightarrow> 'u world" where
  "integrate dt s w =
     upd s (movement dt) (upd s (gravity_step dt) (upd s (follow_step dt (objs w)) w))"

definition before_landing :: "real \<Rightarrow> int \<Rightarrow> int \<Rightarrow> sid \<Rightarrow> 'u world \<Rightarrow> 'u world" where
  "before_landing dt width height s w = upd s (edge_bounce width height) (integrate dt s w)"

definition simulate :: "real \<Rightarrow> int \<Rightarrow> int \<Rightarrow> sid \<Rightarrow> 'u world \<Rightarrow> 'u world" where
  "simulate dt width height s w =
     upd s (lifetime_step dt) (platform_step s (before_landing dt width height s w))"

definition physics_sprite :: "real \<Rightarrow> int \<Rightarrow> int \<Rightarrow> sid \<Rightarrow> 'u world \<Rightarrow> 'u world" where
  "physics_sprite dt width height s w =
     (if \<not> alive (objs w s)
      then w\<lparr>sprites := remove1 s (sprites w)\<rparr>
      else simulate dt width height s w)"

text \<open>The loop runs over a copy of the registry that is taken when it starts.\<close>

definition physics :: "real \<Rightarrow> int \<Rightarrow> int \<Rightarrow> 'u world \<Rightarrow> 'u world" where
  "physics dt width height w = fold (physics_sprite dt width height) (sprites w) w"

section \<open>The public operations\<close>

text \<open>
  The image backend (\<^verbatim>\<open>pygame.image.load\<close>, \<^verbatim>\<open>convert_alpha\<close>, \<^verbatim>\<open>smoothscale\<close>) is a
  parameter: it gives a surface or raises. \<open>StdException\<close> stands for the instances of
  Python's \<^verbatim>\<open>Exception\<close> (what \<^verbatim>\<open>except Exception\<close> catches), \<open>BaseException\<close> for the
  others (\<^verbatim>\<open>KeyboardInterrupt\<close>, \<^verbatim>\<open>SystemExit\<close>).
\<close>

type_synonym loader = "string \<Rightarrow> int \<Rightarrow> int \<Rightarrow> exn + surface"

definition GameSprite ::
  "surface option \<Rightarrow> rect \<Rightarrow> colour \<Rightarrow> real \<times> real \<Rightarrow> real option \<Rightarrow> sprite" where
  "GameSprite img r col speed lt =
     \<lparr>image_surf = img, rect = r, color = col, speed_x = fst speed, speed_y = snd speed,
      lifetime = lt, age = 0, follow = None, bounce = False, alive = True,
      gravity = None, on_ground = None, control_speed = None\<rparr>"

text \<open>The body of the \<^verbatim>\<open>try\<close> block of \<^verbatim>\<open>sprite\<close>: the cache is consulted first and is
  filled only after a successful load and scale.\<close>

definition load_image ::
  "loader \<Rightarrow> string \<Rightarrow> int \<Rightarrow> int \<Rightarrow> 'u world \<Rightarrow> exn + (surface \<times> 'u world)" where
  "load_image load image_path width height w =
     (case image_cache w (image_path, width, height) of
        Some img \<Rightarrow> Inr (img, w)
      | None \<Rightarrow>
          (case load image_path width height of
             Inl e \<Rightarrow> Inl e
           | Inr img \<Rightarrow>
               Inr (img, w\<lparr>image_cache := (image_cache w)((image_path, width, height) \<mapsto> img)\<rparr>)))"

text \<open>The notice that \<^verbatim>\<open>sprite\<close> prints; the typographic apostrophes are UTF-8 bytes.\<close>

definition apostrophe :: string where
  "apostrophe = [CHR 0xE2, CHR 0x80, CHR 0x99]"

definition oops_message :: "string \<Rightarrow> string" where
  "oops_message image_path =
     ''Oops! Can'' @ apostrophe @ ''t find '' @ [CHR 0x22] @ image_path @ [CHR 0x22]
       @ ''. Here'' @ apostrophe @ ''s a rectangle instead.''"

definition sprite ::
  "loader \<Rightarrow> string option \<Rightarrow> int \<Rightarrow> int \<Rightarrow> int \<Rightarrow> int \<Rightarrow> colour \<Rightarrow> real \<times> real \<Rightarrow> real option
     \<Rightarrow> 'u world \<Rightarrow> exn + (sid \<times> 'u world)" where
  "sprite load image_path x y width height col speed lt w =
     (case (case image_path of
              None \<Rightarrow> Inr (None, w)
            | Some path \<Rightarrow>
                if path = [] then Inr (None, w)
                else (case load_image load path width height w of
                        Inr (img, w') \<Rightarrow> Inr (Some img, w')
                      | Inl (StdException m) \<Rightarrow>
                          Inr (None, w\<lparr>stdout := stdout w @ [oops_message path]\<rparr>)
                      | Inl (BaseException m) \<Rightarrow> Inl (BaseException m))) of
        Inl e \<Rightarrow> Inl e
      | Inr (img, w1) \<Rightarrow>
          (let spr = GameSprite img (Rect x y width height) col speed lt;
               s = next_id w1
           in Inr (s, w1\<lparr>objs := (objs w1)(s := spr), next_id := Suc s,
                         sprites := sprites w1 @ [s]\<rparr>)))"

definition platform ::
  "loader \<Rightarrow> int \<Rightarrow> int \<Rightarrow> int \<Rightarrow> int \<Rightarrow> colour \<Rightarrow> 'u world \<Rightarrow> exn + (sid \<times> 'u world)" where
  "platform load x y width height col w =
     (case sprite load None x y width height col (0, 0) None w of
        Inl e \<Rightarrow> Inl e
      | Inr (plat, w') \<Rightarrow> Inr (plat, w'\<lparr>platforms := platforms w' @ [plat]\<rparr>))"

definition enable_gravity :: "sid \<Rightarrow> real \<Rightarrow> 'u world \<Rightarrow> 'u world" where
  "enable_gravity s g w = upd s (\<lambda>spr. spr\<lparr>gravity := Some g, on_ground := Some False\<rparr>) w"

definition set_speed :: "real \<Rightarrow> real \<Rightarrow> sprite \<Rightarrow> sprite" where
  "set_speed dx dy spr = spr\<lparr>speed_x := dx, speed_y := dy\<rparr>"

definition velocity :: "real \<Rightarrow> real \<Rightarrow> sprite \<Rightarrow> sprite" where
  "velocity dx dy spr = set_speed dx dy spr"

definition set_follow :: "sid \<Rightarrow> real \<Rightarrow> sprite \<Rightarrow> sprite" where
  "set_follow target speed spr = spr\<lparr>follow := Some (target, speed)\<rparr>"

definition set_bounce :: "bool \<Rightarrow> sprite \<Rightarrow> sprite" where
  "set_bounce enable spr = spr\<lparr>bounce := enable\<rparr>"

definition on_game_start :: "cb \<Rightarrow> 'u world \<Rightarrow> 'u world" where
  "on_game_start fn w = w\<lparr>game_start_handlers := game_start_handlers w @ [fn]\<rparr>"

definition game_over :: "string \<Rightarrow> 'u world \<Rightarrow> 'u world" where
  "game_over message w = w\<lparr>game_over_flag := True, game_over_msg := message\<rparr>"

definition when_overlap :: "sid \<Rightarrow> sid \<Rightarrow> cb \<Rightarrow> 'u world \<Rightarrow> 'u world" where
  "when_overlap a b fn w = w\<lparr>overlap_handlers := overlap_handlers w @ [(a, b, fn)]\<rparr>"

text \<open>\<^verbatim>\<open>d.setdefault(k, []).append(v)\<close> on a dictionary kept in insertion order.\<close>

fun setdefault_append :: "'k \<Rightarrow> 'v \<Rightarrow> ('k \<times> 'v list) list \<Rightarrow> ('k \<times> 'v list) list" where
  "setdefault_append k v [] = [(k, [v])]"
| "setdefault_append k v ((k', vs) # d) =
     (if k' = k then (k', vs @ [v]) # d else (k', vs) # setdefault_append k v d)"

definition when_key :: "key \<Rightarrow> cb \<Rightarrow> 'u world \<Rightarrow> 'u world" where
  "when_key code fn w = w\<lparr>key_handlers := setdefault_append code fn (key_handlers w)\<rparr>"

definition when_click :: "sid \<Rightarrow> cb \<Rightarrow> 'u world \<Rightarrow> 'u world" where
  "when_click sprite_obj fn w = w\<lparr>click_handlers := setdefault_append sprite_obj fn (click_handlers w)\<rparr>"

definition when_update :: "cb \<Rightarrow> 'u world \<Rightarrow> 'u world" where
  "when_update fn w = w\<lparr>update_handlers := update_handlers w @ [fn]\<rparr>"

definition on_game_update :: "hook \<Rightarrow> 'u world \<Rightarrow> 'u world" where
  "on_game_update fn w = w\<lparr>game_update_handlers := game_update_handlers w @ [fn]\<rparr>"

definition draw_circle :: "int \<Rightarrow> int \<Rightarrow> int \<Rightarrow> 'u world \<Rightarrow> 'u world" where
  "draw_circle x y radius w = w\<lparr>draw_commands := draw_commands w @ [(x, y, radius)]\<rparr>"

definition write_text :: "string \<Rightarrow> int \<Rightarrow> int \<Rightarrow> int \<Rightarrow> 'u world \<Rightarrow> 'u world" where
  "write_text txt x y sz w = w\<lparr>text_commands := text_commands w @ [(txt, x, y, sz)]\<rparr>"

definition control_arrows ::
  "sid \<Rightarrow> real \<Rightarrow> (real \<times> real \<times> real \<times> real) option \<Rightarrow> 'u world \<Rightarrow> 'u world" where
  "control_arrows s speed bounds w =
     on_game_update (ArrowHandler s bounds) (upd s (\<lambda>spr. spr\<lparr>control_speed := Some speed\<rparr>) w)"

definition projectile_from ::
  "loader \<Rightarrow> sid \<Rightarrow> real \<Rightarrow> real \<Rightarrow> string option \<Rightarrow> int \<Rightarrow> int \<Rightarrow> colour \<Rightarrow> real option
     \<Rightarrow> 'u world \<Rightarrow> exn + (sid \<times> 'u world)" where
  "projectile_from load sprite_obj vx vy image_path width height col lt w =
     sprite load image_path
       (fst (rect_center (rect (objs w sprite_obj))) - width div 2)
       (snd (rect_center (rect (objs w sprite_obj))) - height div 2)
       width height col (vx, vy) lt w"

text \<open>The state of the module before the game script has run. Identities that are not
  allocated yet hold a placeholder, which \<^verbatim>\<open>sprite\<close> overwrites.\<close>

definition initial_world :: "'u \<Rightarrow> 'u world" where
  "initial_world u =
     \<lparr>objs = (\<lambda>_. GameSprite None (Rect 0 0 0 0) (0, 0, 0) (0, 0) None), next_id = 0,
      sprites = [], platforms = [], overlap_handlers = [], key_handlers = [],
      click_handlers = [], update_handlers = [], game_update_handlers = [],
      game_start_handlers = [], draw_commands = [], text_commands = [],
      image_cache = Map.empty, game_over_flag = False, game_over_msg = [],
      stdout = [], user = u\<rparr>"

section \<open>The main loop\<close>

text \<open>
  What the loop receives from pygame in one iteration: the milliseconds returned by
  \<^verbatim>\<open>_clock.tick(60)\<close>, the events of \<^verbatim>\<open>pygame.event.get()\<close> and the key state of
  \<^verbatim>\<open>pygame.key.get_pressed()\<close>.
\<close>

datatype pg_event = QUIT | KEYDOWN key | MOUSEBUTTONDOWN "int \<times> int" | OtherEvent

record frame_input =
  tick :: nat
  events :: "pg_event list"
  pressed :: "key \<Rightarrow> bool"

definition K_SPACE :: key where "K_SPACE = 32"
definition K_RIGHT :: key where "K_RIGHT = 1073741903"
definition K_LEFT :: key where "K_LEFT = 1073741904"
definition K_DOWN :: key where "K_DOWN = 1073741905"
definition K_UP :: key where "K_UP = 1073741906"

text \<open>
  The game script: the effect of calling its function number \<open>fn\<close> with the given
  arguments. Callbacks are taken to return normally; they may use every operation of the
  module, registrations included. What the loop itself does to the outside (the callbacks it
  invokes and the drawing calls it makes) is recorded, in order, in a log that callbacks
  cannot touch.
\<close>

datatype args = NoArgs | DtArg real | SpritesArg sid sid

type_synonym 'u script = "cb \<Rightarrow> args \<Rightarrow> 'u world \<Rightarrow> 'u world"

datatype out =
    StartCall cb
  | KeyCall key cb
  | ClickCall sid cb
  | GameUpdateCall hook real
  | OverlapCall sid sid cb
  | UpdateCall cb
  | Background
  | BlitSprite sid surface rect
  | FillSprite sid colour rect
  | Circle int int int
  | Text string int int int
  | GameOverText string
  | RestartPrompt
  | Flip

type_synonym 'u st = "'u world \<times> out list"

definition bind_res :: "(exn + 'a) option \<Rightarrow> ('a \<Rightarrow> (exn + 'b) option) \<Rightarrow> (exn + 'b) option" where
  "bind_res m f = (case m of None \<Rightarrow> None | Some (Inl e) \<Rightarrow> Some (Inl e) | Some (Inr x) \<Rightarrow> f x)"

text \<open>
  \<^verbatim>\<open>for x in xs: body\<close> over a list that the body may extend: the iterator keeps an index
  and looks at the current length at every step, so the loop need not end. The result is
  \<open>None\<close> when it does not, \<open>Some (Inl e)\<close> when the body raises.
\<close>

partial_function (option) for_live ::
  "('s \<Rightarrow> 'a list) \<Rightarrow> ('a \<Rightarrow> 's \<Rightarrow> (exn + 's) option) \<Rightarrow> nat \<Rightarrow> 's \<Rightarrow> (exn + 's) option" where
  "for_live sel body i st =
     (if i < length (sel st)
      then (case body (sel st ! i) st of
              None \<Rightarrow> None
            | Some (Inl e) \<Rightarrow> Some (Inl e)
            | Some (Inr st') \<Rightarrow> for_live sel body (Suc i) st')
      else Some (Inr st))"

text \<open>
  \<^verbatim>\<open>for k, v in d.items(): body\<close>: the iterator of a dictionary raises RuntimeError at its
  next step when the number of keys is no longer the \<open>n\<close> it started with.
\<close>

partial_function (option) for_items ::
  "('s \<Rightarrow> ('k \<times> 'v) list) \<Rightarrow> nat \<Rightarrow> ('k \<times> 'v \<Rightarrow> 's \<Rightarrow> (exn + 's) option) \<Rightarrow> nat \<Rightarrow> 's
     \<Rightarrow> (exn + 's) option" where
  "for_items sel n body i st =
     (if length (sel st) \<noteq> n then Some (Inl (StdException ''RuntimeError''))
      else if i < n
      then (case body (sel st ! i) st of
              None \<Rightarrow> None
            | Some (Inl e) \<Rightarrow> Some (Inl e)
            | Some (Inr st') \<Rightarrow> for_items sel n body (Suc i) st')
      else Some (Inr st))"

text \<open>The list object stored under a key; callbacks only ever append to it.\<close>

definition handlers_for :: "'k \<Rightarrow> ('k \<times> 'v list) list \<Rightarrow> 'v list" where
  "handlers_for k d = (case map_of d k of None \<Rightarrow> [] | Some fns \<Rightarrow> fns)"

subsection \<open>Event handling\<close>

definition run_start_handlers :: "'u script \<Rightarrow> 'u st \<Rightarrow> (exn + 'u st) option" where
  "run_start_handlers run st =
     for_live (\<lambda>st. game_start_handlers (fst st))
       (\<lambda>fn (w, tr). Some (Inr (run fn NoArgs w, tr @ [StartCall fn]))) 0 st"

text \<open>The restart branch of the KEYDOWN case: reset the state, keep the handlers, run the
  on-start callbacks.\<close>

definition restart :: "'u script \<Rightarrow> 'u st \<Rightarrow> (exn + 'u st) option" where
  "restart run st =
     run_start_handlers run
       ((fst st)\<lparr>sprites := [], draw_commands := [], text_commands := [],
                 game_over_flag := False\<rparr>, snd st)"

definition click_dispatch :: "'u script \<Rightarrow> int \<times> int \<Rightarrow> 'u st \<Rightarrow> (exn + 'u st) option" where
  "click_dispatch run pos st =
     for_items (\<lambda>st. click_handlers (fst st)) (length (click_handlers (fst st)))
       (\<lambda>(spr, fns) st.
          if collidepoint (rect (objs (fst st) spr)) pos
          then for_live (\<lambda>st. handlers_for spr (click_handlers (fst st)))
                 (\<lambda>fn (w, tr). Some (Inr (run fn NoArgs w, tr @ [ClickCall spr fn]))) 0 st
          else Some (Inr st)) 0 st"

text \<open>The loop over the events of one iteration. The second component is the local
  variable \<^verbatim>\<open>running\<close>. The restart ends the loop (\<^verbatim>\<open>break\<close>): later events are dropped.\<close>

fun drain :: "'u script \<Rightarrow> pg_event list \<Rightarrow> 'u st \<times> bool \<Rightarrow> (exn + 'u st \<times> bool) option" where
  "drain run [] (st, running) = Some (Inr (st, running))"
| "drain run (QUIT # evs) (st, running) = drain run evs (st, False)"
| "drain run (KEYDOWN k # evs) (st, running) =
     (if game_over_flag (fst st) \<and> k = K_SPACE
      then bind_res (restart run st) (\<lambda>st'. Some (Inr (st', running)))
      else drain run evs (st, running))"
| "drain run (MOUSEBUTTONDOWN pos # evs) (st, running) =
     (if \<not> game_over_flag (fst st)
      then bind_res (click_dispatch run pos st) (\<lambda>st'. drain run evs (st', running))
      else drain run evs (st, running))"
| "drain run (OtherEvent # evs) (st, running) = drain run evs (st, running)"

subsection \<open>The passes of a running frame\<close>

definition key_dispatch :: "'u script \<Rightarrow> (key \<Rightarrow> bool) \<Rightarrow> 'u st \<Rightarrow> (exn + 'u st) option" where
  "key_dispatch run held st =
     for_items (\<lambda>st. key_handlers (fst st)) (length (key_handlers (fst st)))
       (\<lambda>(code, fns) st.
          if held code
          then for_live (\<lambda>st. handlers_for code (key_handlers (fst st)))
                 (\<lambda>fn (w, tr). Some (Inr (run fn NoArgs w, tr @ [KeyCall code fn]))) 0 st
          else Some (Inr st)) 0 st"

text \<open>The closure of \<^verbatim>\<open>control_arrows\<close>: the displacement \<^verbatim>\<open>(dx, dy)\<close> read from the
  arrow keys, added to the position, then the clamp to the bounds when there are any.\<close>

definition arrow_delta :: "(key \<Rightarrow> bool) \<Rightarrow> real \<Rightarrow> real \<Rightarrow> real \<times> real" where
  "arrow_delta held dt spd =
     ((if held K_RIGHT then spd * dt else 0) - (if held K_LEFT then spd * dt else 0),
      (if held K_DOWN then spd * dt else 0) - (if held K_UP then spd * dt else 0))"

definition clamp_bounds ::
  "(real \<Rightarrow> int) \<Rightarrow> (real \<times> real \<times> real \<times> real) option \<Rightarrow> sprite \<Rightarrow> sprite" where
  "clamp_bounds conv bounds spr =
     (case bounds of
        None \<Rightarrow> spr
      | Some (x0, y0, x1, y1) \<Rightarrow>
          spr\<lparr>rect := (rect spr)
            \<lparr>rect_x := conv (max x0 (min (real_of_int (rect_x (rect spr)))
                                (x1 - real_of_int (rect_width (rect spr))))),
             rect_y := conv (max y0 (min (real_of_int (rect_y (rect spr)))
                                (y1 - real_of_int (rect_height (rect spr)))))\<rparr>\<rparr>)"

definition arrow_handler_by ::
  "(real \<Rightarrow> int) \<Rightarrow> (key \<Rightarrow> bool) \<Rightarrow> real \<Rightarrow> sid \<Rightarrow> (real \<times> real \<times> real \<times> real) option
     \<Rightarrow> 'u world \<Rightarrow> exn + 'u world" where
  "arrow_handler_by conv held dt s bounds w =
     (case control_speed (objs w s) of
        None \<Rightarrow> Inl (StdException ''AttributeError'')
      | Some spd \<Rightarrow>
          Inr (upd s (clamp_bounds conv bounds)
                 (upd s (\<lambda>spr. spr\<lparr>rect := add_y_by conv (snd (arrow_delta held dt spd))
                                             (add_x_by conv (fst (arrow_delta held dt spd)) (rect spr))\<rparr>)
                    w)))"

definition arrow_handler ::
  "(key \<Rightarrow> bool) \<Rightarrow> real \<Rightarrow> sid \<Rightarrow> (real \<times> real \<times> real \<times> real) option \<Rightarrow> 'u world
     \<Rightarrow> exn + 'u world" where
  "arrow_handler held dt s bounds w = arrow_handler_by trunc held dt s bounds w"

definition call_hook :: "'u script \<Rightarrow> (key \<Rightarrow> bool) \<Rightarrow> hook \<Rightarrow> real \<Rightarrow> 'u world \<Rightarrow> exn + 'u world" where
  "call_hook run held fn dt w =
     (case fn of
        Hook n \<Rightarrow> Inr (run n (DtArg dt) w)
      | ArrowHandler s bounds \<Rightarrow> arrow_handler held dt s bounds w)"

definition game_update_dispatch ::
  "'u script \<Rightarrow> (key \<Rightarrow> bool) \<Rightarrow> real \<Rightarrow> 'u st \<Rightarrow> (exn + 'u st) option" where
  "game_update_dispatch run held dt st =
     for_live (\<lambda>st. game_update_handlers (fst st))
       (\<lambda>fn (w, tr).
          case call_hook run held fn dt w of
            Inl e \<Rightarrow> Some (Inl e)
          | Inr w' \<Rightarrow> Some (Inr (w', tr @ [GameUpdateCall fn dt]))) 0 st"

definition overlap_body :: "'u script \<Rightarrow> sid \<times> sid \<times> cb \<Rightarrow> 'u st \<Rightarrow> 'u st" where
  "overlap_body run h st =
     (case h of (a, b, fn) \<Rightarrow>
        if alive (objs (fst st) a) \<and> alive (objs (fst st) b)
           \<and> colliderect (rect (objs (fst st) a)) (rect (objs (fst st) b))
        then (run fn (SpritesArg a b) (fst st), snd st @ [OverlapCall a b fn])
        else st)"

definition overlap_dispatch :: "'u script \<Rightarrow> 'u st \<Rightarrow> (exn + 'u st) option" where
  "overlap_dispatch run st =
     for_live (\<lambda>st. overlap_handlers (fst st)) (\<lambda>h st. Some (Inr (overlap_body run h st))) 0 st"

definition update_dispatch :: "'u script \<Rightarrow> 'u st \<Rightarrow> (exn + 'u st) option" where
  "update_dispatch run st =
     for_live (\<lambda>st. update_handlers (fst st))
       (\<lambda>fn (w, tr). Some (Inr (run fn NoArgs w, tr @ [UpdateCall fn]))) 0 st"

text \<open>Drawing. The background block (image stretched or tiled, or a colour fill) is one
  entry of the log. The sprite loop runs over the registry and looks at no flag.\<close>

definition draw_sprite :: "'u world \<Rightarrow> sid \<Rightarrow> out" where
  "draw_sprite w spr =
     (case image_surf (objs w spr) of
        Some img \<Rightarrow> BlitSprite spr img (rect (objs w spr))
      | None \<Rightarrow> FillSprite spr (color (objs w spr)) (rect (objs w spr)))"

definition draw_pass :: "'u world \<Rightarrow> out list" where
  "draw_pass w =
     [Background] @ map (draw_sprite w) (sprites w)
       @ map (\<lambda>(x, y, r). Circle x y r) (draw_commands w)
       @ map (\<lambda>(txt, x, y, sz). Text txt x y sz) (text_commands w)
       @ [Flip]"

definition render :: "'u st \<Rightarrow> 'u st" where
  "render st = ((fst st)\<lparr>draw_commands := [], text_commands := []\<rparr>, snd st @ draw_pass (fst st))"

definition game_over_screen :: "'u st \<Rightarrow> 'u st" where
  "game_over_screen st =
     (fst st, snd st @ [Background, GameOverText (game_over_msg (fst st)), RestartPrompt, Flip])"

text \<open>Everything after the game-over test, for a frame in which the flag is not set.\<close>

definition running_frame ::
  "'u script \<Rightarrow> int \<Rightarrow> int \<Rightarrow> (key \<Rightarrow> bool) \<Rightarrow> real \<Rightarrow> 'u st \<Rightarrow> (exn + 'u st) option" where
  "running_frame run width height held dt st =
     bind_res (key_dispatch run held st) (\<lambda>st1.
     bind_res (game_update_dispatch run held dt st1) (\<lambda>st2.
     bind_res (overlap_dispatch run (physics dt width height (fst st2), snd st2)) (\<lambda>st3.
     bind_res (update_dispatch run st3) (\<lambda>st4.
     Some (Inr (render st4))))))"

text \<open>One iteration of \<^verbatim>\<open>while running\<close>.\<close>

definition frame ::
  "'u script \<Rightarrow> int \<Rightarrow> int \<Rightarrow> frame_input \<Rightarrow> 'u st \<Rightarrow> (exn + 'u st \<times> bool) option" where
  "frame run width height inp st =
     bind_res (drain run (events inp) (st, True)) (\<lambda>(st1, running).
       if game_over_flag (fst st1)
       then Some (Inr (game_over_screen st1, running))
       else bind_res (running_frame run width height (pressed inp) (real (tick inp) / 1000) st1)
              (\<lambda>st2. Some (Inr (st2, running))))"

text \<open>The loop, on the inputs of its first iterations; it ends when an iteration has seen
  a QUIT event.\<close>

fun main_loop ::
  "'u script \<Rightarrow> int \<Rightarrow> int \<Rightarrow> frame_input list \<Rightarrow> 'u st \<Rightarrow> (exn + 'u st) option" where
  "main_loop run width height [] st = Some (Inr st)"
| "main_loop run width height (inp # inps) st =
     bind_res (frame run width height inp st) (\<lambda>(st', running).
       if running then main_loop run width height inps st' else Some (Inr st'))"

definition start ::
  "'u script \<Rightarrow> int \<Rightarrow> int \<Rightarrow> frame_input list \<Rightarrow> 'u st \<Rightarrow> (exn + 'u st) option" where
  "start run width height inps st =
     bind_res (run_start_handlers run st) (main_loop run width height inps)"

section \<open>The registry invariant\<close>

text \<open>Every sprite of the registry is an allocated object and none occurs twice: this holds
  initially, \<^verbatim>\<open>sprite\<close> keeps it (a new object is appended) and so does the physics loop
  (which only removes).\<close>

definition registry_ok :: "'u world \<Rightarrow> bool" where
  "registry_ok w \<longleftrightarrow> distinct (sprites w) \<and> list_all (\<lambda>s. s < next_id w) (sprites w)"

section \<open>Scenarios\<close>

text \<open>The sprite of the bounce scenario: a rectangle of the given width at the origin,
  moving right at 100 px/s, with bounce enabled.\<close>

definition bouncing_sprite :: "int \<Rightarrow> real \<Rightarrow> sprite" where
  "bouncing_sprite w vy = set_bounce True (GameSprite None (Rect 0 0 w 10) (0, 0, 255) (100, vy) None)"

definition no_images :: loader where
  "no_images path width height = Inl (StdException ''FileNotFoundError'')"

text \<open>A platform whose top is at y = 100 and, above it, a 10 x 10 sprite with gravity 800.
  The sprite lands in the first frame; the script then makes it jump. Each frame takes
  an eighth of a second.\<close>

definition jumper_world :: "unit world" where
  "jumper_world =
     (let (plat, w1) = projr (platform no_images 0 100 200 20 (100, 100, 100) (initial_world ()));
          (s, w2) = projr (sprite no_images None 0 85 10 10 (0, 0, 255) (0, 0) None w1)
      in enable_gravity s 800 w2)"

definition jumper_landed :: "unit world" where
  "jumper_landed = physics (1 / 8) 640 480 jumper_world"

definition jumper_jumping :: "unit world" where
  "jumper_jumping = upd 1 (velocity 0 (- 300)) jumper_landed"

definition jumper_rising :: "unit world" where
  "jumper_rising = physics (1 / 8) 640 480 jumper_jumping"

text \<open>Three platforms (the first far away, the other two under the sprite) and a falling
  sprite.\<close>

definition stacked_world :: "unit world" where
  "stacked_world =
     (let (p0, w1) = projr (platform no_images 300 100 200 20 (100, 100, 100) (initial_world ()));
          (p1, w2) = projr (platform no_images 0 100 200 20 (100, 100, 100) w1);
          (p2, w3) = projr (platform no_images 0 98 200 20 (100, 100, 100) w2);
          (s, w4) = projr (sprite no_images None 0 90 10 10 (0, 0, 255) (0, 500) None w3)
      in enable_gravity s 800 w4)"

text \<open>Sprites and worlds for slow motion, in frames of an eighth of a second: at 2 px/s the
  displacement is a quarter of a pixel per frame, at 6 px/s three quarters. The arrow-controlled
  sprite has the bounds of the example game.\<close>

definition slow_sprite :: "int \<Rightarrow> int \<Rightarrow> real \<Rightarrow> real \<Rightarrow> sprite" where
  "slow_sprite x y vx vy = GameSprite None (Rect x y 10 10) (0, 0, 255) (vx, vy) None"

definition arrows_world :: "unit world" where
  "arrows_world =
     (let (s, w) = projr (sprite no_images None 5 5 10 10 (0, 0, 255) (0, 0) None (initial_world ()))
      in control_arrows s 6 (Some (0, 0, 640, 480)) w)"

text \<open>The law of sub-pixel displacements that holds for both conversions: \<open>x\<close> is the
  coordinate before, \<open>d\<close> the displacement and \<open>x'\<close> the coordinate after.\<close>

definition subpixel_law :: "int \<Rightarrow> real \<Rightarrow> int \<Rightarrow> bool" where
  "subpixel_law x d x' \<longleftrightarrow>
     (\<bar>d\<bar> < 1 / 2 \<and> 0 \<le> real_of_int x * d \<longrightarrow> x' = x)
   \<and> (0 < x \<and> - 1 < d \<and> d < - 1 / 2 \<longrightarrow> x' = x - 1)
   \<and> (x < 0 \<and> 1 / 2 < d \<and> d < 1 \<longrightarrow> x' = x + 1)"

text \<open>A sprite that follows a target 105 pixels to its left at 6 px/s, and the keyboard
  state with the left and up arrows held.\<close>

definition follower :: sprite where
  "follower = set_follow 1 6 (slow_sprite 5 5 0 0)"

definition left_up :: "key \<Rightarrow> bool" where
  "left_up k \<longleftrightarrow> k = K_LEFT \<or> k = K_UP"

text \<open>A projectile with a lifetime of two seconds.\<close>

definition lifetime_world :: "unit world" where
  "lifetime_world = snd (projr (sprite no_images None 0 0 8 8 (255, 255, 0) (0, 0) (Some 2) (initial_world ())))"

text \<open>The scenario of the overlap counter: two stationary overlapping sprites, one overlap
  triple, and a script whose every function increments a counter. The invariant says that
  only the counter changes from frame to frame.\<close>

definition counting :: "nat script" where
  "counting fn a w = w\<lparr>user := Suc (user w)\<rparr>"

definition overlap_world :: "nat world" where
  "overlap_world =
     (let (a, w1) = projr (sprite no_images None 0 0 10 10 (0, 0, 255) (0, 0) None (initial_world 0));
          (b, w2) = projr (sprite no_images None 5 5 10 10 (0, 0, 255) (0, 0) None w1)
      in when_overlap a b 0 w2)"

definition overlap_inv :: "nat \<Rightarrow> nat world \<Rightarrow> bool" where
  "overlap_inv k w \<longleftrightarrow>
     sprites w = [0, 1] \<and> objs w 0 = objs overlap_world 0 \<and> objs w 1 = objs overlap_world 1
   \<and> platforms w = [] \<and> overlap_handlers w = [(0, 1, 0)] \<and> key_handlers w = []
   \<and> click_handlers w = [] \<and> update_handlers w = [] \<and> game_update_handlers w = []
   \<and> \<not> game_over_flag w \<and> user w = k"

text \<open>The number of invocations of the registered overlap callback in a log.\<close>

definition overlap_calls :: "out list \<Rightarrow> nat" where
  "overlap_calls tr = length (filter (\<lambda>ev. ev = OverlapCall 0 1 0) tr)"

text \<open>The sprites that a log shows as drawn, in order.\<close>

fun sprite_of :: "out \<Rightarrow> sid option" where
  "sprite_of (BlitSprite s img r) = Some s"
| "sprite_of (FillSprite s col r) = Some s"
| "sprite_of ev = None"

fun rendered :: "out list \<Rightarrow> sid list" where
  "rendered [] = []"
| "rendered (ev # tr) = (case sprite_of ev of None \<Rightarrow> rendered tr | Some s \<Rightarrow> s # rendered tr)"

text \<open>A script whose functions do nothing, and the input of a frame without events.\<close>

definition idle :: "unit script" where
  "idle fn a w = w"

definition still_frame :: frame_input where
  "still_frame = \<lparr>tick = 16, events = [], pressed = (\<lambda>k. False)\<rparr>"

text \<open>A projectile with a lifetime of two seconds, two other sprites, two overlap triples
  and a click handler on the projectile.\<close>

definition graveyard_world :: "unit world" where
  "graveyard_world =
     (let (p, w1) = projr (sprite no_images None 0 0 8 8 (255, 255, 0) (0, 0) (Some 2) (initial_world ()));
          (a, w2) = projr (sprite no_images None 4 4 10 10 (0, 0, 255) (0, 0) None w1);
          (b, w3) = projr (sprite no_images None 6 6 10 10 (0, 0, 255) (0, 0) None w2)
      in when_click p 7 (when_overlap a b 5 (when_overlap p a 4 w3)))"

text \<open>The same world after a physics step of two seconds: the projectile has expired.\<close>

definition expired_world :: "unit world" where
  "expired_world = physics 2 640 480 graveyard_world"

text \<open>A script in the manner of the example game: function 0 is the set-up that creates the
  player, a 40 x 40 sprite moving up at 100 px/s; the other functions do nothing.\<close>

definition respawn :: "unit script" where
  "respawn fn a w =
     (if fn = 0
      then snd (projr (sprite no_images None 300 430 40 40 (0, 200, 255) (0, - 100) None w))
      else w)"

text \<open>A script whose overlap callbacks fire a projectile from the first sprite of the
  triple, in the manner of \<^verbatim>\<open>shoot\<close> of the example game; its other functions do nothing.\<close>

definition shooter :: "unit script" where
  "shooter fn a w =
     (case a of
        SpritesArg x y \<Rightarrow>
          snd (projr (projectile_from no_images x 0 (- 450) None 6 14 (255, 255, 0) (Some 2) w))
      | _ \<Rightarrow> w)"

text \<open>A game that has been lost: the sprites and overlap triples of the graveyard scenario,
  one callback of every kind, buffered draw and text commands, and the game-over flag.\<close>

definition lost_world :: "unit world" where
  "lost_world =
     game_over ''You Lose!''
       (write_text ''Score'' 10 10 24
         (draw_circle 1 2 3
           (when_update 3
             (on_game_update (Hook 2)
               (when_key K_SPACE 1
                 (on_game_start 0 graveyard_world))))))"

text \<open>An iteration that takes half a second, with SPACE pressed and held; a QUIT
  event follows the key press in the queue.\<close>

definition restart_input :: frame_input where
  "restart_input = \<lparr>tick = 500, events = [OtherEvent, KEYDOWN K_SPACE, QUIT], pressed = (\<lambda>k. k = K_SPACE)\<rparr>"

section \<open>Basic facts\<close>

lemma upd_fields:
  "objs (upd s f w) = (objs w)(s := f (objs w s))"
  "sprites (upd s f w) = sprites w"
  "platforms (upd s f w) = platforms w"
  by (simp_all add: upd_def)

lemma trunc_of_int: "trunc (real_of_int n) = n"
  by (simp add: trunc_def)

lemmas physics_defs =
  physics_def physics_sprite_def simulate_def before_landing_def integrate_def upd_def
  follow_step_def follow_step_by_def follow_delta_def gravity_step_def movement_def
  movement_by_def edge_bounce_def bounce_x_def bounce_y_def platform_step_def
  lifetime_step_def destroy_def add_x_def add_y_def add_x_by_def add_y_by_def set_bottom_def
  trunc_def
  rect_left_def rect_right_def rect_top_def rect_bottom_def colliderect_def

lemmas api_defs =
  sprite_def platform_def enable_gravity_def initial_world_def GameSprite_def Rect_def
  set_bounce_def set_speed_def velocity_def set_follow_def

subsection \<open>What the physics loop changes\<close>

lemma land_frame:
  "sprites (land s plats w) = sprites w"
  "platforms (land s plats w) = platforms w"
  "q \<noteq> s \<Longrightarrow> objs (land s plats w) q = objs w q"
  "alive (objs (land s plats w) q) = alive (objs w q)"
  "lifetime (objs (land s plats w) q) = lifetime (objs w q)"
  "age (objs (land s plats w) q) = age (objs w q)"
  by (induction plats) (simp_all add: upd_def)

lemma platform_step_frame:
  "sprites (platform_step s w) = sprites w"
  "platforms (platform_step s w) = platforms w"
  "q \<noteq> s \<Longrightarrow> objs (platform_step s w) q = objs w q"
  "alive (objs (platform_step s w) q) = alive (objs w q)"
  "lifetime (objs (platform_step s w) q) = lifetime (objs w q)"
  "age (objs (platform_step s w) q) = age (objs w q)"
  by (simp_all add: platform_step_def land_frame upd_def)

lemma follow_step_life:
  "alive (follow_step dt store spr) = alive spr"
  "lifetime (follow_step dt store spr) = lifetime spr"
  "age (follow_step dt store spr) = age spr"
  by (simp_all add: follow_step_def follow_step_by_def split: option.split prod.split)

lemma gravity_step_life:
  "alive (gravity_step dt spr) = alive spr"
  "lifetime (gravity_step dt spr) = lifetime spr"
  "age (gravity_step dt spr) = age spr"
  by (simp_all add: gravity_step_def split: option.split)

lemma movement_life:
  "alive (movement dt spr) = alive spr"
  "lifetime (movement dt spr) = lifetime spr"
  "age (movement dt spr) = age spr"
  by (simp_all add: movement_def movement_by_def)

lemma edge_bounce_life:
  "alive (edge_bounce width height spr) = alive spr"
  "lifetime (edge_bounce width height spr) = lifetime spr"
  "age (edge_bounce width height spr) = age spr"
  by (simp_all add: edge_bounce_def bounce_x_def bounce_y_def)

lemma before_landing_self:
  "objs (before_landing dt width height s w) s
     = edge_bounce width height (movement dt (gravity_step dt (follow_step dt (objs w) (objs w s))))"
  by (simp add: before_landing_def integrate_def upd_def)

lemma before_landing_frame:
  "sprites (before_landing dt width height s w) = sprites w"
  "platforms (before_landing dt width height s w) = platforms w"
  "q \<noteq> s \<Longrightarrow> objs (before_landing dt width height s w) q = objs w q"
  by (simp_all add: before_landing_def integrate_def upd_def)

lemma before_landing_life:
  "alive (objs (before_landing dt width height s w) q) = alive (objs w q)"
  "lifetime (objs (before_landing dt width height s w) q) = lifetime (objs w q)"
  "age (objs (before_landing dt width height s w) q) = age (objs w q)"
  by (cases "q = s"; simp add: before_landing_self before_landing_frame
        follow_step_life gravity_step_life movement_life edge_bounce_life)+

lemma simulate_frame:
  "sprites (simulate dt width height s w) = sprites w"
  "platforms (simulate dt width height s w) = platforms w"
  "q \<noteq> s \<Longrightarrow> objs (simulate dt width height s w) q = objs w q"
  by (simp_all add: simulate_def upd_fields platform_step_frame before_landing_frame)

lemma simulate_life:
  assumes "lifetime (objs w s) = Some l"
  shows "age (objs (simulate dt width height s w) s) = age (objs w s) + dt"
    and "lifetime (objs (simulate dt width height s w) s) = Some l"
    and "alive (objs (simulate dt width height s w) s)
           = (alive (objs w s) \<and> age (objs w s) + dt < l)"
  using assms
  by (auto simp: simulate_def upd_fields lifetime_step_def destroy_def Let_def
      platform_step_frame before_landing_life)

lemma simulate_no_lifetime:
  assumes "lifetime (objs w s) = None"
  shows "alive (objs (simulate dt width height s w) s) = alive (objs w s)"
  using assms
  by (auto simp: simulate_def upd_fields lifetime_step_def
      platform_step_frame before_landing_life)

lemma physics_sprite_other:
  assumes "q \<noteq> s"
  shows "objs (physics_sprite dt width height s w) q = objs w q"
    and "q \<in> set (sprites (physics_sprite dt width height s w)) \<longleftrightarrow> q \<in> set (sprites w)"
  using assms by (auto simp: physics_sprite_def simulate_frame)

lemma physics_sprite_distinct:
  "distinct (sprites w) \<Longrightarrow> distinct (sprites (physics_sprite dt width height s w))"
  by (simp add: physics_sprite_def simulate_frame)

lemma fold_physics_other:
  assumes "q \<notin> set xs"
  shows "objs (fold (physics_sprite dt width height) xs w) q = objs w q
       \<and> (q \<in> set (sprites (fold (physics_sprite dt width height) xs w)) \<longleftrightarrow> q \<in> set (sprites w))"
  using assms
proof (induction xs arbitrary: w)
  case Nil
  show ?case by simp
next
  case (Cons x xs)
  then have "q \<noteq> x" "q \<notin> set xs" by auto
  with Cons.IH [of "physics_sprite dt width height x w"] show ?case
    by (simp add: physics_sprite_other)
qed

lemma fold_physics_distinct:
  "distinct (sprites w) \<Longrightarrow> distinct (sprites (fold (physics_sprite dt width height) xs w))"
  by (induction xs arbitrary: w) (simp_all add: physics_sprite_distinct)

lemma count_list_remove1:
  "count_list (remove1 x xs) y = (if x = y then count_list xs y - 1 else count_list xs y)"
  by (induction xs) auto

text \<open>A sprite that is not alive when the loop reaches the rest of the copy, and that
  occurs in the registry no more often than in that rest, is gone afterwards and was not
  touched.\<close>

lemma fold_physics_dead:
  assumes "\<not> alive (objs w s)" "count_list (sprites w) s \<le> count_list xs s"
  shows "s \<notin> set (sprites (fold (physics_sprite dt width height) xs w))
       \<and> objs (fold (physics_sprite dt width height) xs w) s = objs w s"
  using assms
proof (induction xs arbitrary: w)
  case Nil
  then show ?case by (simp add: count_list_0_iff)
next
  case (Cons x xs)
  let ?w = "physics_sprite dt width height x w"
  have same: "objs ?w s = objs w s"
    using Cons.prems(1) by (cases "x = s") (simp_all add: physics_sprite_def simulate_frame)
  have cnt: "count_list (sprites ?w) s \<le> count_list xs s"
  proof (cases "x = s")
    case True
    with Cons.prems show ?thesis
      by (simp add: physics_sprite_def count_list_remove1)
  next
    case False
    with Cons.prems show ?thesis
      by (simp add: physics_sprite_def simulate_frame count_list_remove1)
  qed
  from Cons.IH [of ?w] same cnt Cons.prems(1) show ?case by simp
qed

lemma physics_dead:
  assumes "\<not> alive (objs w s)"
  shows "s \<notin> set (sprites (physics dt width height w))"
    and "objs (physics dt width height w) s = objs w s"
  using fold_physics_dead [OF assms, of "sprites w"] by (simp_all add: physics_def)

lemma physics_distinct:
  "distinct (sprites w) \<Longrightarrow> distinct (sprites (physics dt width height w))"
  by (simp add: physics_def fold_physics_distinct)

lemma physics_live:
  assumes d: "distinct (sprites w)" and s: "s \<in> set (sprites w)"
    and l: "lifetime (objs w s) = Some l" and a: "alive (objs w s)"
  shows "s \<in> set (sprites (physics dt width height w))"
    and "age (objs (physics dt width height w) s) = age (objs w s) + dt"
    and "lifetime (objs (physics dt width height w) s) = Some l"
    and "alive (objs (physics dt width height w) s) = (age (objs w s) + dt < l)"
proof -
  from s obtain pre post where split: "sprites w = pre @ s # post"
    by (auto simp: in_set_conv_decomp)
  with d have notin: "s \<notin> set pre" "s \<notin> set post" by auto
  define w1 where "w1 = fold (physics_sprite dt width height) pre w"
  define w2 where "w2 = physics_sprite dt width height s w1"
  have w1: "objs w1 s = objs w s" "s \<in> set (sprites w1)"
    using fold_physics_other [OF notin(1), of dt width height w] s by (simp_all add: w1_def)
  have w2: "w2 = simulate dt width height s w1"
    using a w1 by (simp add: w2_def physics_sprite_def)
  have fin: "physics dt width height w = fold (physics_sprite dt width height) post w2"
    by (simp add: physics_def split w1_def w2_def)
  note rest = fold_physics_other [OF notin(2), of dt width height w2]
  show "s \<in> set (sprites (physics dt width height w))"
    using rest w1 by (simp add: fin w2 simulate_frame)
  show "age (objs (physics dt width height w) s) = age (objs w s) + dt"
    using rest w1 l by (simp add: fin w2 simulate_life)
  show "lifetime (objs (physics dt width height w) s) = Some l"
    using rest w1 l by (simp add: fin w2 simulate_life)
  show "alive (objs (physics dt width height w) s) = (age (objs w s) + dt < l)"
    using rest w1 l a by (simp add: fin w2 simulate_life)
qed

lemma land_first:
  assumes "\<forall>q\<in>set pre. \<not> colliderect (rect (objs w s)) (rect (objs w q))"
    and "colliderect (rect (objs w s)) (rect (objs w p))"
  shows "land s (pre @ p # post) w =
         upd s (\<lambda>spr. spr\<lparr>rect := set_bottom (rect_top (rect (objs w p))) (rect spr),
                             speed_y := 0, on_ground := Some True\<rparr>) w"
  using assms by (induction pre) auto

section \<open>Edge bounce\<close>

text \<open>
  C5, as stated, fails for a sprite that is wider than the window: here a sprite of width
  60 in a window of width 50 crosses the right bound after integration, and after the bounce
  sub-step its right edge is still beyond the window.
\<close>

theorem C5_counterexample:
  "bounce (movement 1 (bouncing_sprite 60 0))
   \<and> rect_right (rect (movement 1 (bouncing_sprite 60 0))) > 50
   \<and> \<not> rect_right (rect (edge_bounce 50 50 (movement 1 (bouncing_sprite 60 0)))) \<le> 50"
  by (simp add: bouncing_sprite_def set_bounce_def GameSprite_def Rect_def movement_def movement_by_def
      edge_bounce_def bounce_x_def bounce_y_def add_x_def add_x_by_def add_y_def add_y_by_def
      trunc_def rect_left_def rect_right_def rect_top_def rect_bottom_def)

text \<open>
  C5 (amended): for a sprite with bounce enabled whose rectangle crosses a horizontal window
  bound after integration, the edge-bounce sub-step negates the horizontal velocity and
  sets \<open>x\<close> to \<open>max 0 (min x (width - w))\<close>, whatever the size of the sprite. When the sprite
  is no wider than the window this puts the rectangle fully inside on that axis; a wider
  sprite is pinned at \<open>x = 0\<close> with its right edge beyond the window. A sprite that crosses
  no horizontal bound keeps its horizontal velocity and its \<open>x\<close>. The same holds,
  independently, for the vertical axis with the window height. In the scenario of the
  specification (sprite at (0,0,10,10), velocity (100,0), window width 50, one physics step
  with dt = 1) the velocity becomes -100 and \<open>x\<close> becomes 40.
\<close>

theorem C5_edge_bounce:
  assumes "bounce spr"
  shows "(rect_left (rect spr) < 0 \<or> rect_right (rect spr) > width \<longrightarrow>
           speed_x (edge_bounce width height spr) = - speed_x spr
         \<and> rect_x (rect (edge_bounce width height spr))
             = max 0 (min (rect_x (rect spr)) (width - rect_width (rect spr)))
         \<and> (rect_width (rect spr) \<le> width \<longrightarrow>
              0 \<le> rect_left (rect (edge_bounce width height spr))
            \<and> rect_right (rect (edge_bounce width height spr)) \<le> width)
         \<and> (width < rect_width (rect spr) \<longrightarrow>
              rect_x (rect (edge_bounce width height spr)) = 0
            \<and> width < rect_right (rect (edge_bounce width height spr))))
       \<and> (\<not> (rect_left (rect spr) < 0 \<or> rect_right (rect spr) > width) \<longrightarrow>
           speed_x (edge_bounce width height spr) = speed_x spr
         \<and> rect_x (rect (edge_bounce width height spr)) = rect_x (rect spr))
       \<and> (rect_top (rect spr) < 0 \<or> rect_bottom (rect spr) > height \<longrightarrow>
           speed_y (edge_bounce width height spr) = - speed_y spr
         \<and> rect_y (rect (edge_bounce width height spr))
             = max 0 (min (rect_y (rect spr)) (height - rect_height (rect spr)))
         \<and> (rect_height (rect spr) \<le> height \<longrightarrow>
              0 \<le> rect_top (rect (edge_bounce width height spr))
            \<and> rect_bottom (rect (edge_bounce width height spr)) \<le> height)
         \<and> (height < rect_height (rect spr) \<longrightarrow>
              rect_y (rect (edge_bounce width height spr)) = 0
            \<and> height < rect_bottom (rect (edge_bounce width height spr))))
       \<and> (\<not> (rect_top (rect spr) < 0 \<or> rect_bottom (rect spr) > height) \<longrightarrow>
           speed_y (edge_bounce width height spr) = speed_y spr
         \<and> rect_y (rect (edge_bounce width height spr)) = rect_y (rect spr))
       \<and> rect_width (rect (edge_bounce width height spr)) = rect_width (rect spr)
       \<and> rect_height (rect (edge_bounce width height spr)) = rect_height (rect spr)
       \<and> (case sprite load None 0 0 10 10 col (100, 0) None (initial_world u) of
            Inl e \<Rightarrow> False
          | Inr (s, w) \<Rightarrow>
              speed_x (objs (physics 1 50 h (upd s (set_bounce True) w)) s) = - 100
            \<and> rect_x (rect (objs (physics 1 50 h (upd s (set_bounce True) w)) s)) = 40)"
proof -
  have horizontal: "rect_left (rect spr) < 0 \<or> rect_right (rect spr) > width \<longrightarrow>
           speed_x (edge_bounce width height spr) = - speed_x spr
         \<and> rect_x (rect (edge_bounce width height spr))
             = max 0 (min (rect_x (rect spr)) (width - rect_width (rect spr)))
         \<and> (rect_width (rect spr) \<le> width \<longrightarrow>
              0 \<le> rect_left (rect (edge_bounce width height spr))
            \<and> rect_right (rect (edge_bounce width height spr)) \<le> width)
         \<and> (width < rect_width (rect spr) \<longrightarrow>
              rect_x (rect (edge_bounce width height spr)) = 0
            \<and> width < rect_right (rect (edge_bounce width height spr)))"
    using assms
    by (auto simp: edge_bounce_def bounce_x_def bounce_y_def rect_left_def rect_right_def
        rect_top_def rect_bottom_def)
  have horizontal_idle: "\<not> (rect_left (rect spr) < 0 \<or> rect_right (rect spr) > width) \<longrightarrow>
           speed_x (edge_bounce width height spr) = speed_x spr
         \<and> rect_x (rect (edge_bounce width height spr)) = rect_x (rect spr)"
    using assms
    by (auto simp: edge_bounce_def bounce_x_def bounce_y_def rect_left_def rect_right_def
        rect_top_def rect_bottom_def)
  have vertical: "rect_top (rect spr) < 0 \<or> rect_bottom (rect spr) > height \<longrightarrow>
           speed_y (edge_bounce width height spr) = - speed_y spr
         \<and> rect_y (rect (edge_bounce width height spr))
             = max 0 (min (rect_y (rect spr)) (height - rect_height (rect spr)))
         \<and> (rect_height (rect spr) \<le> height \<longrightarrow>
              0 \<le> rect_top (rect (edge_bounce width height spr))
            \<and> rect_bottom (rect (edge_bounce width height spr)) \<le> height)
         \<and> (height < rect_height (rect spr) \<longrightarrow>
              rect_y (rect (edge_bounce width height spr)) = 0
            \<and> height < rect_bottom (rect (edge_bounce width height spr)))"
    using assms
    by (auto simp: edge_bounce_def bounce_x_def bounce_y_def rect_left_def rect_right_def
        rect_top_def rect_bottom_def)
  have vertical_idle: "\<not> (rect_top (rect spr) < 0 \<or> rect_bottom (rect spr) > height) \<longrightarrow>
           speed_y (edge_bounce width height spr) = speed_y spr
         \<and> rect_y (rect (edge_bounce width height spr)) = rect_y (rect spr)"
    using assms
    by (auto simp: edge_bounce_def bounce_x_def bounce_y_def rect_left_def rect_right_def
        rect_top_def rect_bottom_def)
  have dims: "rect_width (rect (edge_bounce width height spr)) = rect_width (rect spr)"
    "rect_height (rect (edge_bounce width height spr)) = rect_height (rect spr)"
    by (simp_all add: edge_bounce_def bounce_x_def bounce_y_def)
  have scenario: "case sprite load None 0 0 10 10 col (100, 0) None (initial_world u) of
            Inl e \<Rightarrow> False
          | Inr (s, w) \<Rightarrow>
              speed_x (objs (physics 1 50 h (upd s (set_bounce True) w)) s) = - 100
            \<and> rect_x (rect (objs (physics 1 50 h (upd s (set_bounce True) w)) s)) = 40"
    by (simp add: physics_defs api_defs)
  from horizontal horizontal_idle vertical vertical_idle dims scenario show ?thesis
    by blast
qed

text \<open>Two instances: a 10 x 10 sprite that leaves a 50 x 50 window through its corner, and
  a sprite 60 wide and 10 high in a window 50 wide and 5 high, which is pinned at the
  origin on both axes.\<close>

theorem C5_edge_bounce_witness:
  "bounce (movement 1 (bouncing_sprite 10 100))
   \<and> rect (movement 1 (bouncing_sprite 10 100)) = Rect 100 100 10 10
   \<and> speed_x (edge_bounce 50 50 (movement 1 (bouncing_sprite 10 100))) = - 100
   \<and> rect_x (rect (edge_bounce 50 50 (movement 1 (bouncing_sprite 10 100)))) = 40
   \<and> speed_y (edge_bounce 50 50 (movement 1 (bouncing_sprite 10 100))) = - 100
   \<and> rect_y (rect (edge_bounce 50 50 (movement 1 (bouncing_sprite 10 100)))) = 40
   \<and> rect_right (rect (edge_bounce 50 50 (movement 1 (bouncing_sprite 10 100)))) \<le> 50
   \<and> rect_bottom (rect (edge_bounce 50 50 (movement 1 (bouncing_sprite 10 100)))) \<le> 50
   \<and> bounce (movement 1 (bouncing_sprite 60 100))
   \<and> rect (movement 1 (bouncing_sprite 60 100)) = Rect 100 100 60 10
   \<and> speed_x (edge_bounce 50 5 (movement 1 (bouncing_sprite 60 100))) = - 100
   \<and> rect_x (rect (edge_bounce 50 5 (movement 1 (bouncing_sprite 60 100)))) = 0
   \<and> 50 < rect_right (rect (edge_bounce 50 5 (movement 1 (bouncing_sprite 60 100))))
   \<and> speed_y (edge_bounce 50 5 (movement 1 (bouncing_sprite 60 100))) = - 100
   \<and> rect_y (rect (edge_bounce 50 5 (movement 1 (bouncing_sprite 60 100)))) = 0
   \<and> 5 < rect_bottom (rect (edge_bounce 50 5 (movement 1 (bouncing_sprite 60 100))))"
proof -
  have b: "bounce (movement 1 (bouncing_sprite w 100))" for w
    by (simp add: bouncing_sprite_def set_bounce_def GameSprite_def movement_def movement_by_def)
  have r: "rect (movement 1 (bouncing_sprite w 100)) = Rect 100 100 w 10" for w
    by (simp add: bouncing_sprite_def set_bounce_def GameSprite_def Rect_def movement_def movement_by_def
        add_x_def add_x_by_def add_y_def add_y_by_def trunc_def)
  have v: "speed_x (movement 1 (bouncing_sprite w 100)) = 100"
      "speed_y (movement 1 (bouncing_sprite w 100)) = 100" for w
    by (simp_all add: bouncing_sprite_def set_bounce_def GameSprite_def movement_def movement_by_def)
  have narrow: "speed_x (edge_bounce 50 50 (movement 1 (bouncing_sprite 10 100))) = - 100
   \<and> rect_x (rect (edge_bounce 50 50 (movement 1 (bouncing_sprite 10 100)))) = 40
   \<and> speed_y (edge_bounce 50 50 (movement 1 (bouncing_sprite 10 100))) = - 100
   \<and> rect_y (rect (edge_bounce 50 50 (movement 1 (bouncing_sprite 10 100)))) = 40
   \<and> rect_right (rect (edge_bounce 50 50 (movement 1 (bouncing_sprite 10 100)))) \<le> 50
   \<and> rect_bottom (rect (edge_bounce 50 50 (movement 1 (bouncing_sprite 10 100)))) \<le> 50"
    using C5_edge_bounce [OF b [of 10], where width = 50 and height = 50 and h = 50 and u = "()"
        and col = "(0, 0, 255)" and load = "\<lambda>_ _ _. Inl (StdException [])"]
    by (simp add: r v Rect_def rect_left_def rect_right_def rect_top_def rect_bottom_def)
  have wide: "speed_x (edge_bounce 50 5 (movement 1 (bouncing_sprite 60 100))) = - 100
   \<and> rect_x (rect (edge_bounce 50 5 (movement 1 (bouncing_sprite 60 100)))) = 0
   \<and> 50 < rect_right (rect (edge_bounce 50 5 (movement 1 (bouncing_sprite 60 100))))
   \<and> speed_y (edge_bounce 50 5 (movement 1 (bouncing_sprite 60 100))) = - 100
   \<and> rect_y (rect (edge_bounce 50 5 (movement 1 (bouncing_sprite 60 100)))) = 0
   \<and> 5 < rect_bottom (rect (edge_bounce 50 5 (movement 1 (bouncing_sprite 60 100))))"
    using C5_edge_bounce [OF b [of 60], where width = 50 and height = 5 and h = 50 and u = "()"
        and col = "(0, 0, 255)" and load = "\<lambda>_ _ _. Inl (StdException [])"]
    by (simp add: r v Rect_def rect_left_def rect_right_def rect_top_def rect_bottom_def)
  from narrow wide b [of 10] b [of 60] r [of 10] r [of 60] show ?thesis
    by simp
qed

section \<open>Integer positions\<close>

text \<open>
  A \<^verbatim>\<open>pygame.Rect\<close> holds integers, so \<^verbatim>\<open>rect.x += d\<close> converts the float sum back to an
  integer. Which integer depends on the library: pygame up to 2.2 truncates toward zero,
  later versions round to the nearest integer. Both conversions satisfy \<open>rect_conversion\<close>,
  and the theorems of this section hold for every conversion that does.
\<close>

lemma rect_conversion_trunc: "rect_conversion trunc"
  unfolding rect_conversion_def trunc_def
  by (auto simp: floor_eq_iff ceiling_eq_iff)

lemma rect_conversion_round: "rect_conversion round"
  unfolding rect_conversion_def round_def
  by (auto simp: floor_eq_iff abs_if split: if_splits)

lemma conversion_law:
  assumes "rect_conversion conv"
  shows "subpixel_law x d (conv (real_of_int x + d))"
proof -
  have keep: "conv (real_of_int x + d) = x" if "\<bar>d\<bar> < 1 / 2" "0 \<le> real_of_int x * d"
  proof -
    have "(0 \<le> real_of_int x \<and> 0 \<le> d) \<or> (real_of_int x \<le> 0 \<and> d \<le> 0)"
      using that(2) by (simp add: zero_le_mult_iff)
    then have "\<bar>real_of_int x\<bar> \<le> \<bar>real_of_int x + d\<bar>"
      by auto
    with assms that(1) show ?thesis
      unfolding rect_conversion_def by simp
  qed
  have down: "conv (real_of_int x + d) = x - 1" if "0 < x" "- 1 < d" "d < - 1 / 2"
  proof -
    have "\<bar>(real_of_int x + d) - real_of_int (x - 1)\<bar> < 1 / 2"
      "\<bar>real_of_int (x - 1)\<bar> \<le> \<bar>real_of_int x + d\<bar>"
      using that by auto
    with assms show ?thesis
      unfolding rect_conversion_def by blast
  qed
  have up: "conv (real_of_int x + d) = x + 1" if "x < 0" "1 / 2 < d" "d < 1"
  proof -
    have "\<bar>(real_of_int x + d) - real_of_int (x + 1)\<bar> < 1 / 2"
      "\<bar>real_of_int (x + 1)\<bar> \<le> \<bar>real_of_int x + d\<bar>"
      using that by auto
    with assms show ?thesis
      unfolding rect_conversion_def by blast
  qed
  show ?thesis
    unfolding subpixel_law_def using keep down up by blast
qed

lemma add_by_coords:
  "rect_x (add_x_by conv d r) = conv (real_of_int (rect_x r) + d)"
  "rect_y (add_x_by conv d r) = rect_y r"
  "rect_y (add_y_by conv d r) = conv (real_of_int (rect_y r) + d)"
  "rect_x (add_y_by conv d r) = rect_x r"
  by (simp_all add: add_x_by_def add_y_by_def)

lemma add_by_dims:
  "rect_width (add_x_by conv d r) = rect_width r"
  "rect_width (add_y_by conv d r) = rect_width r"
  "rect_height (add_x_by conv d r) = rect_height r"
  "rect_height (add_y_by conv d r) = rect_height r"
  by (simp_all add: add_x_by_def add_y_by_def)

lemma conversion_of_int:
  assumes "rect_conversion conv"
  shows "conv (real_of_int n) = n"
  using assms unfolding rect_conversion_def by simp

lemma clamp_int:
  assumes "rect_conversion conv"
  shows "rect_x (rect (clamp_bounds conv
             (Some (real_of_int x0, real_of_int y0, real_of_int x1, real_of_int y1)) spr))
           = max x0 (min (rect_x (rect spr)) (x1 - rect_width (rect spr)))"
    and "rect_y (rect (clamp_bounds conv
             (Some (real_of_int x0, real_of_int y0, real_of_int x1, real_of_int y1)) spr))
           = max y0 (min (rect_y (rect spr)) (y1 - rect_height (rect spr)))"
proof -
  have "max (real_of_int a) (min (real_of_int b) (real_of_int c - real_of_int d))
          = real_of_int (max a (min b (c - d)))" for a b c d
    by (simp add: max_def min_def)
  then show "rect_x (rect (clamp_bounds conv
             (Some (real_of_int x0, real_of_int y0, real_of_int x1, real_of_int y1)) spr))
           = max x0 (min (rect_x (rect spr)) (x1 - rect_width (rect spr)))"
    and "rect_y (rect (clamp_bounds conv
             (Some (real_of_int x0, real_of_int y0, real_of_int x1, real_of_int y1)) spr))
           = max y0 (min (rect_y (rect spr)) (y1 - rect_height (rect spr)))"
    by (simp_all add: clamp_bounds_def conversion_of_int [OF assms])
qed

lemma movement_by_iter:
  assumes "rect_conversion conv"
  shows "\<bar>speed_x spr * dt\<bar> < 1 / 2 \<Longrightarrow> 0 \<le> real_of_int (rect_x (rect spr)) * (speed_x spr * dt)
          \<Longrightarrow> rect_x (rect ((movement_by conv dt ^^ n) spr)) = rect_x (rect spr)
              \<and> speed_x ((movement_by conv dt ^^ n) spr) = speed_x spr"
    and "\<bar>speed_y spr * dt\<bar> < 1 / 2 \<Longrightarrow> 0 \<le> real_of_int (rect_y (rect spr)) * (speed_y spr * dt)
          \<Longrightarrow> rect_y (rect ((movement_by conv dt ^^ n) spr)) = rect_y (rect spr)
              \<and> speed_y ((movement_by conv dt ^^ n) spr) = speed_y spr"
proof -
  note lawx = conversion_law [OF assms, of "rect_x (rect spr)" "speed_x spr * dt",
      unfolded subpixel_law_def]
  note lawy = conversion_law [OF assms, of "rect_y (rect spr)" "speed_y spr * dt",
      unfolded subpixel_law_def]
  show "\<bar>speed_x spr * dt\<bar> < 1 / 2 \<Longrightarrow> 0 \<le> real_of_int (rect_x (rect spr)) * (speed_x spr * dt)
          \<Longrightarrow> rect_x (rect ((movement_by conv dt ^^ n) spr)) = rect_x (rect spr)
              \<and> speed_x ((movement_by conv dt ^^ n) spr) = speed_x spr"
  proof (induction n)
    case 0
    show ?case by simp
  next
    case (Suc n)
    then show ?case using lawx
      by (simp add: movement_by_def add_by_coords)
  qed
  show "\<bar>speed_y spr * dt\<bar> < 1 / 2 \<Longrightarrow> 0 \<le> real_of_int (rect_y (rect spr)) * (speed_y spr * dt)
          \<Longrightarrow> rect_y (rect ((movement_by conv dt ^^ n) spr)) = rect_y (rect spr)
              \<and> speed_y ((movement_by conv dt ^^ n) spr) = speed_y spr"
  proof (induction n)
    case 0
    show ?case by simp
  next
    case (Suc n)
    then show ?case using lawy
      by (simp add: movement_by_def add_by_coords)
  qed
qed

text \<open>
  C10, as stated (any displacement below one pixel leaves the coordinate unchanged), fails
  under both conversions: a sprite at x = 5 moving left at 6 px/s is at x = 4 after one frame
  of an eighth of a second, since 5 - 0.75 = 4.25 truncates to 4 and also rounds to 4.
\<close>

theorem C10_counterexample:
  "\<bar>speed_x (slow_sprite 5 5 (- 6) 0) * (1 / 8)\<bar> < 1
 \<and> rect_x (rect (slow_sprite 5 5 (- 6) 0)) = 5
 \<and> rect_x (rect (movement (1 / 8) (slow_sprite 5 5 (- 6) 0))) = 4
 \<and> rect_x (rect (movement_by trunc (1 / 8) (slow_sprite 5 5 (- 6) 0))) = 4
 \<and> rect_x (rect (movement_by round (1 / 8) (slow_sprite 5 5 (- 6) 0))) = 4"
  by (simp add: slow_sprite_def GameSprite_def Rect_def movement_def movement_by_def
      add_x_by_def add_y_by_def trunc_def round_def)

text \<open>
  C10 (amended): positions are integers and every per-frame update (velocity integration,
  follow displacement, arrow-control displacement) adds a real displacement and converts the
  sum back to an integer, by truncation or by rounding depending on the library version. Under
  either conversion \<open>subpixel_law\<close> holds for each of the three updates and on each axis:
  a displacement of absolute value below half a pixel that does not point toward zero leaves
  the coordinate unchanged, and under velocity integration it does so over any number of
  frames (the remainder is discarded, never accumulated); a displacement of absolute value
  between a half and one pixel that points toward zero moves the coordinate by one whole pixel.
  What the remaining sub-pixel displacements do depends on the conversion and is left open.
  The arrow handler applies its clamp after the displacement; with integer bounds the clamp
  gives \<open>max x0 (min x (x1 - width))\<close> exactly.
\<close>

theorem C10_conversion:
  assumes conv: "rect_conversion conv"
  shows "subpixel_law (rect_x (rect spr)) (speed_x spr * dt) (rect_x (rect (movement_by conv dt spr)))
       \<and> subpixel_law (rect_y (rect spr)) (speed_y spr * dt) (rect_y (rect (movement_by conv dt spr)))
       \<and> (\<bar>speed_x spr * dt\<bar> < 1 / 2 \<and> 0 \<le> real_of_int (rect_x (rect spr)) * (speed_x spr * dt)
            \<longrightarrow> rect_x (rect ((movement_by conv dt ^^ n) spr)) = rect_x (rect spr))
       \<and> (\<bar>speed_y spr * dt\<bar> < 1 / 2 \<and> 0 \<le> real_of_int (rect_y (rect spr)) * (speed_y spr * dt)
            \<longrightarrow> rect_y (rect ((movement_by conv dt ^^ n) spr)) = rect_y (rect spr))
       \<and> (follow_delta dt store sprf = Some (vx, vy) \<longrightarrow>
            subpixel_law (rect_x (rect sprf)) vx (rect_x (rect (follow_step_by conv dt store sprf)))
          \<and> subpixel_law (rect_y (rect sprf)) vy (rect_y (rect (follow_step_by conv dt store sprf))))
       \<and> (control_speed (objs w s) = Some cs \<longrightarrow>
            (\<exists>w1. arrow_handler_by conv held dt s bounds w = Inr (upd s (clamp_bounds conv bounds) w1)
               \<and> subpixel_law (rect_x (rect (objs w s))) (fst (arrow_delta held dt cs))
                    (rect_x (rect (objs w1 s)))
               \<and> subpixel_law (rect_y (rect (objs w s))) (snd (arrow_delta held dt cs))
                    (rect_y (rect (objs w1 s)))
               \<and> (bounds = Some (real_of_int x0, real_of_int y0, real_of_int x1, real_of_int y1) \<longrightarrow>
                    rect_x (rect (objs (upd s (clamp_bounds conv bounds) w1) s))
                      = max x0 (min (rect_x (rect (objs w1 s))) (x1 - rect_width (rect (objs w s))))
                  \<and> rect_y (rect (objs (upd s (clamp_bounds conv bounds) w1) s))
                      = max y0 (min (rect_y (rect (objs w1 s))) (y1 - rect_height (rect (objs w s)))))))"
proof -
  note law = conversion_law [OF conv]
  have m: "subpixel_law (rect_x (rect spr)) (speed_x spr * dt) (rect_x (rect (movement_by conv dt spr)))"
    "subpixel_law (rect_y (rect spr)) (speed_y spr * dt) (rect_y (rect (movement_by conv dt spr)))"
    by (simp_all add: movement_by_def add_by_coords law)
  have f: "subpixel_law (rect_x (rect sprf)) vx (rect_x (rect (follow_step_by conv dt store sprf)))
          \<and> subpixel_law (rect_y (rect sprf)) vy (rect_y (rect (follow_step_by conv dt store sprf)))"
    if "follow_delta dt store sprf = Some (vx, vy)"
    using that by (simp add: follow_step_by_def add_by_coords law)
  have a: "\<exists>w1. arrow_handler_by conv held dt s bounds w = Inr (upd s (clamp_bounds conv bounds) w1)
               \<and> subpixel_law (rect_x (rect (objs w s))) (fst (arrow_delta held dt cs))
                    (rect_x (rect (objs w1 s)))
               \<and> subpixel_law (rect_y (rect (objs w s))) (snd (arrow_delta held dt cs))
                    (rect_y (rect (objs w1 s)))
               \<and> (bounds = Some (real_of_int x0, real_of_int y0, real_of_int x1, real_of_int y1) \<longrightarrow>
                    rect_x (rect (objs (upd s (clamp_bounds conv bounds) w1) s))
                      = max x0 (min (rect_x (rect (objs w1 s))) (x1 - rect_width (rect (objs w s))))
                  \<and> rect_y (rect (objs (upd s (clamp_bounds conv bounds) w1) s))
                      = max y0 (min (rect_y (rect (objs w1 s))) (y1 - rect_height (rect (objs w s)))))"
    if "control_speed (objs w s) = Some cs"
    using that
    by (intro exI [of _ "upd s (\<lambda>spr. spr\<lparr>rect := add_y_by conv (snd (arrow_delta held dt cs))
                                             (add_x_by conv (fst (arrow_delta held dt cs)) (rect spr))\<rparr>) w"])
       (simp add: arrow_handler_by_def upd_fields add_by_coords law
          clamp_int [OF conv] add_by_dims)
  show ?thesis
    using m f a movement_by_iter [OF conv, of spr dt n] by blast
qed

theorem C10_conversion_witness:
  "rect_conversion trunc \<and> rect_conversion round
 \<and> rect_x (rect ((movement_by trunc (1 / 8) ^^ 600) (slow_sprite 5 5 2 2))) = 5
 \<and> rect_y (rect ((movement_by trunc (1 / 8) ^^ 600) (slow_sprite 5 5 2 2))) = 5
 \<and> rect_x (rect ((movement_by round (1 / 8) ^^ 600) (slow_sprite 5 5 2 2))) = 5
 \<and> rect_y (rect ((movement_by round (1 / 8) ^^ 600) (slow_sprite 5 5 2 2))) = 5
 \<and> rect_x (rect (movement_by trunc (1 / 8) (slow_sprite 5 5 (- 6) (- 6)))) = 4
 \<and> rect_y (rect (movement_by trunc (1 / 8) (slow_sprite 5 5 (- 6) (- 6)))) = 4
 \<and> rect_x (rect (movement_by round (1 / 8) (slow_sprite 5 5 (- 6) (- 6)))) = 4
 \<and> rect_y (rect (movement_by round (1 / 8) (slow_sprite 5 5 (- 6) (- 6)))) = 4
 \<and> rect_x (rect (movement_by trunc (1 / 8) (slow_sprite (- 5) (- 5) 6 6))) = - 4
 \<and> rect_y (rect (movement_by trunc (1 / 8) (slow_sprite (- 5) (- 5) 6 6))) = - 4
 \<and> rect_x (rect (movement_by round (1 / 8) (slow_sprite (- 5) (- 5) 6 6))) = - 4
 \<and> rect_y (rect (movement_by round (1 / 8) (slow_sprite (- 5) (- 5) 6 6))) = - 4
 \<and> follow_delta (1 / 8) (\<lambda>_. slow_sprite (- 100) 5 0 0) follower = Some (- 3 / 4, 0)
 \<and> rect_x (rect (follow_step_by trunc (1 / 8) (\<lambda>_. slow_sprite (- 100) 5 0 0) follower)) = 4
 \<and> rect_y (rect (follow_step_by trunc (1 / 8) (\<lambda>_. slow_sprite (- 100) 5 0 0) follower)) = 5
 \<and> rect_x (rect (follow_step_by round (1 / 8) (\<lambda>_. slow_sprite (- 100) 5 0 0) follower)) = 4
 \<and> rect_y (rect (follow_step_by round (1 / 8) (\<lambda>_. slow_sprite (- 100) 5 0 0) follower)) = 5
 \<and> control_speed (objs arrows_world 0) = Some 6
 \<and> arrow_delta left_up (1 / 8) 6 = (- 3 / 4, - 3 / 4)
 \<and> (\<exists>w1. arrow_handler_by trunc left_up (1 / 8) 0 (Some (0, 0, 640, 480)) arrows_world
              = Inr (upd 0 (clamp_bounds trunc (Some (0, 0, 640, 480))) w1)
         \<and> rect_x (rect (objs w1 0)) = 4 \<and> rect_y (rect (objs w1 0)) = 4
         \<and> rect_x (rect (objs (upd 0 (clamp_bounds trunc (Some (0, 0, 640, 480))) w1) 0)) = 4
         \<and> rect_y (rect (objs (upd 0 (clamp_bounds trunc (Some (0, 0, 640, 480))) w1) 0)) = 4)
 \<and> (\<exists>w1. arrow_handler_by round left_up (1 / 8) 0 (Some (0, 0, 640, 480)) arrows_world
              = Inr (upd 0 (clamp_bounds round (Some (0, 0, 640, 480))) w1)
         \<and> rect_x (rect (objs w1 0)) = 4 \<and> rect_y (rect (objs w1 0)) = 4
         \<and> rect_x (rect (objs (upd 0 (clamp_bounds round (Some (0, 0, 640, 480))) w1) 0)) = 4
         \<and> rect_y (rect (objs (upd 0 (clamp_bounds round (Some (0, 0, 640, 480))) w1) 0)) = 4)"
proof -
  have sq: "sqrt 11025 = 105"
    by (rule real_sqrt_unique) simp_all
  have fd: "follow_delta (1 / 8) (\<lambda>_. slow_sprite (- 100) 5 0 0) follower = Some (- 3 / 4, 0)"
    by (simp add: follow_delta_def follower_def set_follow_def slow_sprite_def GameSprite_def
        Rect_def rect_center_def sq)
  have fr: "rect follower = Rect 5 5 10 10"
    by (simp add: follower_def set_follow_def slow_sprite_def GameSprite_def)
  have aw: "control_speed (objs arrows_world 0) = Some 6" "rect (objs arrows_world 0) = Rect 5 5 10 10"
    by (simp_all add: arrows_world_def control_arrows_def on_game_update_def upd_def
        no_images_def api_defs)
  have ad: "arrow_delta left_up (1 / 8) 6 = (- 3 / 4, - 3 / 4)"
    by (simp add: arrow_delta_def left_up_def K_RIGHT_def K_LEFT_def K_DOWN_def K_UP_def)
  have gen: "rect_x (rect ((movement_by conv (1 / 8) ^^ 600) (slow_sprite 5 5 2 2))) = 5
     \<and> rect_y (rect ((movement_by conv (1 / 8) ^^ 600) (slow_sprite 5 5 2 2))) = 5
     \<and> rect_x (rect (movement_by conv (1 / 8) (slow_sprite 5 5 (- 6) (- 6)))) = 4
     \<and> rect_y (rect (movement_by conv (1 / 8) (slow_sprite 5 5 (- 6) (- 6)))) = 4
     \<and> rect_x (rect (movement_by conv (1 / 8) (slow_sprite (- 5) (- 5) 6 6))) = - 4
     \<and> rect_y (rect (movement_by conv (1 / 8) (slow_sprite (- 5) (- 5) 6 6))) = - 4
     \<and> rect_x (rect (follow_step_by conv (1 / 8) (\<lambda>_. slow_sprite (- 100) 5 0 0) follower)) = 4
     \<and> rect_y (rect (follow_step_by conv (1 / 8) (\<lambda>_. slow_sprite (- 100) 5 0 0) follower)) = 5
     \<and> (\<exists>w1. arrow_handler_by conv left_up (1 / 8) 0 (Some (0, 0, 640, 480)) arrows_world
              = Inr (upd 0 (clamp_bounds conv (Some (0, 0, 640, 480))) w1)
         \<and> rect_x (rect (objs w1 0)) = 4 \<and> rect_y (rect (objs w1 0)) = 4
         \<and> rect_x (rect (objs (upd 0 (clamp_bounds conv (Some (0, 0, 640, 480))) w1) 0)) = 4
         \<and> rect_y (rect (objs (upd 0 (clamp_bounds conv (Some (0, 0, 640, 480))) w1) 0)) = 4)"
    if c: "rect_conversion conv" for conv
  proof -
    from C10_conversion [OF c, where spr = "slow_sprite 5 5 2 2" and dt = "1 / 8" and n = 600
        and store = "\<lambda>_. slow_sprite (- 100) 5 0 0" and sprf = follower and vx = "- 3 / 4" and vy = 0
        and w = arrows_world and s = 0 and cs = 6 and held = left_up
        and bounds = "Some (0, 0, 640, 480)" and ?x0.0 = 0 and ?y0.0 = 0 and ?x1.0 = 640 and ?y1.0 = 480] fd aw ad
    have one: "rect_x (rect ((movement_by conv (1 / 8) ^^ 600) (slow_sprite 5 5 2 2))) = 5
     \<and> rect_y (rect ((movement_by conv (1 / 8) ^^ 600) (slow_sprite 5 5 2 2))) = 5
     \<and> rect_x (rect (follow_step_by conv (1 / 8) (\<lambda>_. slow_sprite (- 100) 5 0 0) follower)) = 4
     \<and> rect_y (rect (follow_step_by conv (1 / 8) (\<lambda>_. slow_sprite (- 100) 5 0 0) follower)) = 5
     \<and> (\<exists>w1. arrow_handler_by conv left_up (1 / 8) 0 (Some (0, 0, 640, 480)) arrows_world
              = Inr (upd 0 (clamp_bounds conv (Some (0, 0, 640, 480))) w1)
         \<and> rect_x (rect (objs w1 0)) = 4 \<and> rect_y (rect (objs w1 0)) = 4
         \<and> rect_x (rect (objs (upd 0 (clamp_bounds conv (Some (0, 0, 640, 480))) w1) 0)) = 4
         \<and> rect_y (rect (objs (upd 0 (clamp_bounds conv (Some (0, 0, 640, 480))) w1) 0)) = 4)"
      apply (simp add: subpixel_law_def fr slow_sprite_def GameSprite_def Rect_def)
      apply (elim conjE exE)
      subgoal for w1
        by (rule exI [of _ w1]) simp
      done
    from C10_conversion [OF c, where spr = "slow_sprite 5 5 (- 6) (- 6)" and dt = "1 / 8"
        and store = "\<lambda>_. slow_sprite (- 100) 5 0 0" and sprf = follower and vx = "- 3 / 4" and vy = 0
        and w = arrows_world and s = 0 and cs = 6 and held = left_up
        and bounds = "Some (0, 0, 640, 480)" and ?x0.0 = 0 and ?y0.0 = 0 and ?x1.0 = 640 and ?y1.0 = 480 and n = 1]
    have two: "rect_x (rect (movement_by conv (1 / 8) (slow_sprite 5 5 (- 6) (- 6)))) = 4
     \<and> rect_y (rect (movement_by conv (1 / 8) (slow_sprite 5 5 (- 6) (- 6)))) = 4"
      by (simp add: subpixel_law_def slow_sprite_def GameSprite_def Rect_def)
    from C10_conversion [OF c, where spr = "slow_sprite (- 5) (- 5) 6 6" and dt = "1 / 8"
        and store = "\<lambda>_. slow_sprite (- 100) 5 0 0" and sprf = follower and vx = "- 3 / 4" and vy = 0
        and w = arrows_world and s = 0 and cs = 6 and held = left_up
        and bounds = "Some (0, 0, 640, 480)" and ?x0.0 = 0 and ?y0.0 = 0 and ?x1.0 = 640 and ?y1.0 = 480 and n = 1]
    have three: "rect_x (rect (movement_by conv (1 / 8) (slow_sprite (- 5) (- 5) 6 6))) = - 4
     \<and> rect_y (rect (movement_by conv (1 / 8) (slow_sprite (- 5) (- 5) 6 6))) = - 4"
      by (simp add: subpixel_law_def slow_sprite_def GameSprite_def Rect_def)
    from one two three show ?thesis by simp
  qed
  from gen [OF rect_conversion_trunc] gen [OF rect_conversion_round]
    rect_conversion_trunc rect_conversion_round fd aw(1) ad
  show ?thesis by simp
qed

section \<open>Platform landing\<close>

text \<open>
  C3: after the physics step of a gravity-enabled sprite, \<open>on_ground\<close> should be true
  exactly when the landing sub-step of that frame resolved a landing, and false on frames
  where the vertical velocity is negative. The code resets the flag only inside the block
  that is guarded by \<^verbatim>\<open>spr.speed.y >= 0\<close>. In the scenario below the sprite lands in the first
  frame; the script then gives it the velocity (0, -300); in the second frame the vertical
  velocity is negative when the landing block is reached, the sprite overlaps no platform
  afterwards, and \<open>on_ground\<close> is still true.
\<close>

theorem C3_on_ground_stale:
  "on_ground (objs jumper_landed 1) = Some True
 \<and> gravity (objs jumper_jumping 1) = Some 800
 \<and> speed_y (objs (before_landing (1 / 8) 640 480 1 jumper_jumping) 1) < 0
 \<and> platforms jumper_rising = [0]
 \<and> \<not> colliderect (rect (objs jumper_rising 1)) (rect (objs jumper_rising 0))
 \<and> on_ground (objs jumper_rising 1) = Some True"
  by (simp add: jumper_rising_def jumper_jumping_def jumper_landed_def jumper_world_def
      no_images_def api_defs physics_defs)

lemma stacked_before:
  "alive (objs stacked_world 3)"
  "platforms stacked_world = [0] @ 1 # [2]"
  "gravity (objs (before_landing (1/100) 640 480 3 stacked_world) 3) = Some 800"
  "speed_y (objs (before_landing (1/100) 640 480 3 stacked_world) 3) = 508"
  "rect (objs (before_landing (1/100) 640 480 3 stacked_world) 3) = Rect 0 95 10 10"
  "rect (objs (before_landing (1/100) 640 480 3 stacked_world) 0) = Rect 300 100 200 20"
  "rect (objs (before_landing (1/100) 640 480 3 stacked_world) 1) = Rect 0 100 200 20"
  "rect (objs (before_landing (1/100) 640 480 3 stacked_world) 2) = Rect 0 98 200 20"
  by (simp_all add: stacked_world_def no_images_def api_defs physics_defs)

text \<open>
  C4: for a live sprite that, after integration and edge bounce, has gravity enabled, a
  non-negative vertical velocity and overlaps a registered platform, the first overlapping
  platform in registration order decides the outcome, whatever platforms are registered
  after it: the bottom of the sprite's rectangle equals the top of that platform, the
  vertical velocity is 0 and \<open>on_ground\<close> is true when the step of that sprite ends; its
  horizontal position and its size are not changed by the landing, and the platform does
  not move. No assumption is made on the speed.
\<close>

theorem C4_first_platform_wins:
  assumes live: "alive (objs w s)"
    and grav: "gravity (objs (before_landing dt width height s w) s) \<noteq> None"
    and vy: "0 \<le> speed_y (objs (before_landing dt width height s w) s)"
    and plats: "platforms w = pre @ p # post"
    and pre: "\<forall>q\<in>set pre. \<not> colliderect (rect (objs (before_landing dt width height s w) s))
                                         (rect (objs (before_landing dt width height s w) q))"
    and hit: "colliderect (rect (objs (before_landing dt width height s w) s))
                          (rect (objs (before_landing dt width height s w) p))"
  shows "rect_bottom (rect (objs (physics_sprite dt width height s w) s))
           = rect_top (rect (objs (before_landing dt width height s w) p))
       \<and> speed_y (objs (physics_sprite dt width height s w) s) = 0
       \<and> on_ground (objs (physics_sprite dt width height s w) s) = Some True
       \<and> rect_x (rect (objs (physics_sprite dt width height s w) s))
           = rect_x (rect (objs (before_landing dt width height s w) s))
       \<and> rect_width (rect (objs (physics_sprite dt width height s w) s))
           = rect_width (rect (objs (before_landing dt width height s w) s))
       \<and> rect_height (rect (objs (physics_sprite dt width height s w) s))
           = rect_height (rect (objs (before_landing dt width height s w) s))
       \<and> (p \<noteq> s \<longrightarrow> rect (objs (physics_sprite dt width height s w) p)
                       = rect (objs (before_landing dt width height s w) p))"
proof -
  define w4 where "w4 = before_landing dt width height s w"
  define w4' where "w4' = upd s (\<lambda>spr. spr\<lparr>on_ground := Some False\<rparr>) w4"
  have p4: "platforms w4 = pre @ p # post"
    using plats by (simp add: w4_def before_landing_def integrate_def upd_fields)
  have r4: "rect (objs w4' q) = rect (objs w4 q)" for q
    by (simp add: w4'_def upd_def)
  have step: "platform_step s w4 = land s (pre @ p # post) w4'"
    using grav vy p4 by (simp add: platform_step_def w4_def [symmetric] w4'_def)
  have "land s (pre @ p # post) w4' =
         upd s (\<lambda>spr. spr\<lparr>rect := set_bottom (rect_top (rect (objs w4' p))) (rect spr),
                             speed_y := 0, on_ground := Some True\<rparr>) w4'"
    using pre hit by (intro land_first) (simp_all add: r4 w4_def [symmetric])
  with step have landed: "platform_step s w4 =
         upd s (\<lambda>spr. spr\<lparr>rect := set_bottom (rect_top (rect (objs w4 p))) (rect spr),
                             speed_y := 0, on_ground := Some True\<rparr>) w4'"
    by (simp add: r4)
  have final: "physics_sprite dt width height s w = upd s (lifetime_step dt) (platform_step s w4)"
    using live by (simp add: physics_sprite_def simulate_def w4_def)
  show ?thesis
    unfolding final landed w4_def [symmetric]
    by (simp add: upd_def w4'_def lifetime_step_def destroy_def set_bottom_def rect_bottom_def
        Let_def split: option.split)
qed

theorem C4_first_platform_wins_witness:
  "alive (objs stacked_world 3)
 \<and> gravity (objs (before_landing (1 / 100) 640 480 3 stacked_world) 3) \<noteq> None
 \<and> 0 \<le> speed_y (objs (before_landing (1 / 100) 640 480 3 stacked_world) 3)
 \<and> platforms stacked_world = [0] @ 1 # [2]
 \<and> \<not> colliderect (rect (objs (before_landing (1 / 100) 640 480 3 stacked_world) 3))
                    (rect (objs (before_landing (1 / 100) 640 480 3 stacked_world) 0))
 \<and> colliderect (rect (objs (before_landing (1 / 100) 640 480 3 stacked_world) 3))
                (rect (objs (before_landing (1 / 100) 640 480 3 stacked_world) 1))
 \<and> colliderect (rect (objs (before_landing (1 / 100) 640 480 3 stacked_world) 3))
                (rect (objs (before_landing (1 / 100) 640 480 3 stacked_world) 2))
 \<and> rect_bottom (rect (objs (physics_sprite (1 / 100) 640 480 3 stacked_world) 3)) = 100
 \<and> speed_y (objs (physics_sprite (1 / 100) 640 480 3 stacked_world) 3) = 0
 \<and> on_ground (objs (physics_sprite (1 / 100) 640 480 3 stacked_world) 3) = Some True"
proof -
  note b = stacked_before
  have miss: "\<forall>q\<in>set [0]. \<not> colliderect (rect (objs (before_landing (1 / 100) 640 480 3 stacked_world) 3))
                    (rect (objs (before_landing (1 / 100) 640 480 3 stacked_world) q))"
    using b by (simp add: colliderect_def Rect_def)
  have hit: "colliderect (rect (objs (before_landing (1 / 100) 640 480 3 stacked_world) 3))
                (rect (objs (before_landing (1 / 100) 640 480 3 stacked_world) 1))"
    using b by (simp add: colliderect_def Rect_def)
  have g: "gravity (objs (before_landing (1 / 100) 640 480 3 stacked_world) 3) \<noteq> None"
    and v: "0 \<le> speed_y (objs (before_landing (1 / 100) 640 480 3 stacked_world) 3)"
    using b by simp_all
  from C4_first_platform_wins [OF b(1) g v b(2) miss hit] miss hit g v b
  show ?thesis
    by (simp add: colliderect_def Rect_def rect_top_def)
qed

section \<open>The registry holds no sprite twice\<close>

lemma registry_ok_initial: "registry_ok (initial_world u)"
  by (simp add: registry_ok_def initial_world_def)

lemma sprite_result:
  assumes "sprite load image_path x y width height col speed lt w = Inr (s, w')"
  shows "s = next_id w" "sprites w' = sprites w @ [s]" "next_id w' = Suc s"
  using assms
  by (auto simp: sprite_def load_image_def Let_def
      split: option.splits if_splits sum.splits exn.splits)

lemma registry_ok_sprite:
  assumes ok: "registry_ok w"
    and new: "sprite load image_path x y width height col speed lt w = Inr (s, w')"
  shows "registry_ok w'"
proof -
  note r = sprite_result [OF new]
  have "\<forall>q\<in>set (sprites w). q < next_id w"
    using ok by (simp add: registry_ok_def list_all_iff)
  then have "s \<notin> set (sprites w)" "\<forall>q\<in>set (sprites w). q < Suc s"
    using r(1) by (auto intro: less_SucI)
  then show ?thesis
    using ok by (simp add: registry_ok_def r list_all_iff)
qed

lemma land_next_id: "next_id (land s plats w) = next_id w"
  by (induction plats) (simp_all add: upd_def)

lemma physics_sprite_next_id: "next_id (physics_sprite dt width height s w) = next_id w"
  by (simp add: physics_sprite_def simulate_def upd_def platform_step_def before_landing_def
      integrate_def land_next_id)

lemma physics_sprite_subset:
  "set (sprites (physics_sprite dt width height s w)) \<subseteq> set (sprites w)"
  using set_remove1_subset [of s "sprites w"] by (auto simp: physics_sprite_def simulate_frame)

lemma registry_ok_physics:
  assumes "registry_ok w"
  shows "registry_ok (physics dt width height w)"
proof -
  have loop: "next_id (fold (physics_sprite dt width height) xs w) = next_id w
      \<and> set (sprites (fold (physics_sprite dt width height) xs w)) \<subseteq> set (sprites w)"
    for xs and w :: "'u world"
  proof (induction xs arbitrary: w)
    case Nil
    show ?case by simp
  next
    case (Cons x xs)
    from Cons.IH [of "physics_sprite dt width height x w"]
      physics_sprite_subset [of dt width height x w]
    show ?case by (auto simp: physics_sprite_next_id)
  qed
  show ?thesis
    using assms loop [of "sprites w" w] physics_distinct [of w dt width height]
    by (auto simp: registry_ok_def physics_def list_all_iff)
qed

section \<open>Lifetime\<close>

text \<open>
  C6: take a sprite of the registry (which holds no sprite twice) that is alive and has the
  lifetime \<open>l\<close>, and let the physics step run for frames with the non-negative time steps
  \<open>dts\<close>. As long as the accumulated age is below \<open>l\<close> the sprite is alive, in the registry,
  and its age is the sum of the steps. In the first frame whose step takes the age to \<open>l\<close> or
  beyond it is marked not alive and is still in the registry; the physics step of the frame
  after that removes it.
\<close>

theorem C6_lifetime:
  assumes reg: "distinct (sprites w)" "s \<in> set (sprites w)"
    and live: "alive (objs w s)" and lt: "lifetime (objs w s) = Some l"
    and dts: "\<forall>dt\<in>set dts. 0 \<le> dt"
  shows "(age (objs w s) + sum_list dts < l \<longrightarrow>
            alive (objs (fold (\<lambda>dt. physics dt width height) dts w) s)
          \<and> s \<in> set (sprites (fold (\<lambda>dt. physics dt width height) dts w))
          \<and> age (objs (fold (\<lambda>dt. physics dt width height) dts w) s) = age (objs w s) + sum_list dts)
       \<and> (age (objs w s) + sum_list dts < l \<and> l \<le> age (objs w s) + sum_list dts + d \<longrightarrow>
            \<not> alive (objs (fold (\<lambda>dt. physics dt width height) (dts @ [d]) w) s)
          \<and> s \<in> set (sprites (fold (\<lambda>dt. physics dt width height) (dts @ [d]) w))
          \<and> s \<notin> set (sprites (fold (\<lambda>dt. physics dt width height) (dts @ [d, d']) w)))"
proof -
  have run: "age (objs w s) + sum_list dts < l \<Longrightarrow>
            distinct (sprites (fold (\<lambda>dt. physics dt width height) dts w))
          \<and> lifetime (objs (fold (\<lambda>dt. physics dt width height) dts w) s) = Some l
          \<and> alive (objs (fold (\<lambda>dt. physics dt width height) dts w) s)
          \<and> s \<in> set (sprites (fold (\<lambda>dt. physics dt width height) dts w))
          \<and> age (objs (fold (\<lambda>dt. physics dt width height) dts w) s) = age (objs w s) + sum_list dts"
    using reg live lt dts
  proof (induction dts arbitrary: w)
    case Nil
    then show ?case by simp
  next
    case (Cons dt dts)
    let ?w = "physics dt width height w"
    have nonneg: "0 \<le> sum_list dts" "0 \<le> dt"
      using Cons.prems(6) by (auto intro: sum_list_nonneg)
    note step = physics_live [OF Cons.prems(2,3,5,4), of dt width height]
    have "alive (objs ?w s)"
      using step(4) nonneg Cons.prems(1) by simp
    moreover have "age (objs ?w s) + sum_list dts < l"
      using step(2) Cons.prems(1) by simp
    moreover have "distinct (sprites ?w)"
      using Cons.prems(2) by (rule physics_distinct)
    ultimately show ?case
      using Cons.IH [of ?w] step Cons.prems(6) by (simp add: add.assoc)
  qed
  show ?thesis
  proof (intro conjI impI)
    assume "age (objs w s) + sum_list dts < l"
    from run [OF this]
    show "alive (objs (fold (\<lambda>dt. physics dt width height) dts w) s)"
      "s \<in> set (sprites (fold (\<lambda>dt. physics dt width height) dts w))"
      "age (objs (fold (\<lambda>dt. physics dt width height) dts w) s) = age (objs w s) + sum_list dts"
      by simp_all
  next
    assume a: "age (objs w s) + sum_list dts < l \<and> l \<le> age (objs w s) + sum_list dts + d"
    let ?w = "fold (\<lambda>dt. physics dt width height) dts w"
    from a run have r: "distinct (sprites ?w)" "lifetime (objs ?w s) = Some l" "alive (objs ?w s)"
      "s \<in> set (sprites ?w)" "age (objs ?w s) = age (objs w s) + sum_list dts"
      by simp_all
    note step = physics_live [OF r(1,4,2,3), of d width height]
    show dead: "\<not> alive (objs (fold (\<lambda>dt. physics dt width height) (dts @ [d]) w) s)"
      using step(4) r(5) a by simp
    show "s \<in> set (sprites (fold (\<lambda>dt. physics dt width height) (dts @ [d]) w))"
      using step(1) by simp
    show "s \<notin> set (sprites (fold (\<lambda>dt. physics dt width height) (dts @ [d, d']) w))"
      using physics_dead(1) [OF dead, of d' width height] by simp
  qed
qed

theorem C6_lifetime_witness:
  "distinct (sprites lifetime_world) \<and> 0 \<in> set (sprites lifetime_world)
 \<and> alive (objs lifetime_world 0) \<and> lifetime (objs lifetime_world 0) = Some 2
 \<and> age (objs lifetime_world 0) = 0
 \<and> list_all (\<lambda>dt. 0 \<le> dt) [1 / 2, 1 / 2, 1 / 2 :: real]
 \<and> age (objs lifetime_world 0) + sum_list [1 / 2, 1 / 2, 1 / 2] < 2
 \<and> 2 \<le> age (objs lifetime_world 0) + sum_list [1 / 2, 1 / 2, 1 / 2] + 1 / 2
 \<and> alive (objs (fold (\<lambda>dt. physics dt 640 480) [1 / 2, 1 / 2, 1 / 2] lifetime_world) 0)
 \<and> 0 \<in> set (sprites (fold (\<lambda>dt. physics dt 640 480) [1 / 2, 1 / 2, 1 / 2] lifetime_world))
 \<and> age (objs (fold (\<lambda>dt. physics dt 640 480) [1 / 2, 1 / 2, 1 / 2] lifetime_world) 0) = 3 / 2
 \<and> \<not> alive (objs (fold (\<lambda>dt. physics dt 640 480) ([1 / 2, 1 / 2, 1 / 2] @ [1 / 2]) lifetime_world) 0)
 \<and> 0 \<in> set (sprites (fold (\<lambda>dt. physics dt 640 480) ([1 / 2, 1 / 2, 1 / 2] @ [1 / 2]) lifetime_world))
 \<and> 0 \<notin> set (sprites (fold (\<lambda>dt. physics dt 640 480) ([1 / 2, 1 / 2, 1 / 2] @ [1 / 2, 1 / 60]) lifetime_world))"
proof -
  have f: "sprites lifetime_world = [0]" "alive (objs lifetime_world 0)"
    "lifetime (objs lifetime_world 0) = Some 2" "age (objs lifetime_world 0) = 0"
    by (simp_all add: lifetime_world_def no_images_def api_defs)
  have h: "distinct (sprites lifetime_world)" "0 \<in> set (sprites lifetime_world)"
    "\<forall>dt\<in>set [1 / 2, 1 / 2, 1 / 2 :: real]. 0 \<le> dt"
    by (simp_all add: f)
  from C6_lifetime [OF h(1,2) f(2,3) h(3), of 640 480 "1 / 2" "1 / 60"] h f
  show ?thesis by simp
qed

section \<open>Loops over live lists\<close>

text \<open>When the body is total and never changes the list, the loop is a fold over it.\<close>

lemma for_live_stable:
  assumes stable: "\<And>x st. sel (f x st) = sel st"
    and body: "\<And>x st. body x st = Some (Inr (f x st))"
  shows "for_live sel body i st = Some (Inr (fold f (drop i (sel st)) st))"
proof (induction "length (sel st) - i" arbitrary: i st)
  case 0
  then show ?case by (subst for_live.simps) simp
next
  case (Suc n)
  then have lt: "i < length (sel st)" by simp
  have m: "n = length (sel (f (sel st ! i) st)) - Suc i"
    using Suc.hyps(2) by (simp add: stable)
  have "for_live sel body i st = for_live sel body (Suc i) (f (sel st ! i) st)"
    by (subst for_live.simps) (simp add: lt body)
  also have "\<dots> = Some (Inr (fold f (drop (Suc i) (sel st)) (f (sel st ! i) st)))"
    using Suc.hyps(1) [OF m] by (simp add: stable)
  also have "\<dots> = Some (Inr (fold f (drop i (sel st)) st))"
    using lt by (simp add: Cons_nth_drop_Suc [symmetric])
  finally show ?case .
qed

text \<open>The same with an invariant: it is enough that the body keeps the list in the states
  that satisfy the invariant.\<close>

lemma for_live_invariant:
  assumes inv: "P st"
    and step: "\<And>x st. P st \<Longrightarrow> x \<in> set (sel st) \<Longrightarrow> P (f x st) \<and> sel (f x st) = sel st"
    and body: "\<And>x st. body x st = Some (Inr (f x st))"
  shows "for_live sel body i st = Some (Inr (fold f (drop i (sel st)) st))
       \<and> P (fold f (drop i (sel st)) st)"
  using inv
proof (induction "length (sel st) - i" arbitrary: i st)
  case 0
  then show ?case by (subst for_live.simps) simp
next
  case (Suc n)
  then have lt: "i < length (sel st)" by simp
  let ?st = "f (sel st ! i) st"
  have s: "P ?st" "sel ?st = sel st"
    using step [OF Suc.prems, of "sel st ! i"] lt by simp_all
  have m: "n = length (sel ?st) - Suc i"
    using Suc.hyps(2) by (simp add: s)
  have d: "drop i (sel st) = sel st ! i # drop (Suc i) (sel st)"
    using lt by (simp add: Cons_nth_drop_Suc)
  have "for_live sel body i st = for_live sel body (Suc i) ?st"
    by (subst for_live.simps) (simp add: lt body)
  with Suc.hyps(1) [OF m s(1)] show ?case
    by (simp add: s d)
qed

text \<open>Without any assumption on the list: when the loop ends normally, an invariant of the
  body holds at the end.\<close>

lemma for_live_partial:
  assumes res: "for_live sel body i st = Some y"
  shows "P st \<longrightarrow> (\<forall>x st st'. P st \<longrightarrow> body x st = Some (Inr st') \<longrightarrow> P st')
       \<longrightarrow> (\<forall>st'. y = Inr st' \<longrightarrow> P st')"
proof (rule for_live.raw_induct [where P = "\<lambda>sel body i st y.
      P st \<longrightarrow> (\<forall>x st st'. P st \<longrightarrow> body x st = Some (Inr st') \<longrightarrow> P st')
        \<longrightarrow> (\<forall>st'. y = Inr st' \<longrightarrow> P st')", OF _ res])
  fix loop sel body i st y
  assume IH: "\<And>sel body i st y. loop sel body i st = Some y \<Longrightarrow>
      P st \<longrightarrow> (\<forall>x st st'. P st \<longrightarrow> body x st = Some (Inr st') \<longrightarrow> P st')
        \<longrightarrow> (\<forall>st'. y = Inr st' \<longrightarrow> P st')"
    and eq: "(if i < length (sel st)
      then case body (sel st ! i) st of None \<Rightarrow> None
           | Some (Inl e) \<Rightarrow> Some (Inl e)
           | Some (Inr st') \<Rightarrow> loop sel body (Suc i) st'
      else Some (Inr st)) = Some y"
  show "P st \<longrightarrow> (\<forall>x st st'. P st \<longrightarrow> body x st = Some (Inr st') \<longrightarrow> P st')
        \<longrightarrow> (\<forall>st'. y = Inr st' \<longrightarrow> P st')"
  proof (intro impI allI)
    fix st'
    assume p: "P st"
      and step: "\<forall>x st st'. P st \<longrightarrow> body x st = Some (Inr st') \<longrightarrow> P st'"
      and y: "y = Inr st'"
    show "P st'"
    proof (cases "i < length (sel st)")
      case False
      with eq p y show ?thesis by simp
    next
      case True
      show ?thesis
      proof (cases "body (sel st ! i) st")
        case None
        with True eq show ?thesis by simp
      next
        case (Some r)
        show ?thesis
        proof (cases r)
          case (Inl e)
          with Some True eq y show ?thesis by simp
        next
          case (Inr st1)
          with Some True eq have l: "loop sel body (Suc i) st1 = Some y" by simp
          have p1: "P st1" using step p Some Inr by blast
          from IH [OF l] p1 step y show ?thesis by blast
        qed
      qed
    qed
  qed
qed

section \<open>Overlap notification\<close>

lemma overlap_body_handlers:
  assumes "\<forall>fn a w. overlap_handlers (run fn a w) = overlap_handlers w"
  shows "overlap_handlers (fst (overlap_body run h st)) = overlap_handlers (fst st)"
  using assms by (simp add: overlap_body_def split: prod.split)

lemma overlap_dispatch_fold:
  assumes "\<forall>fn a w. overlap_handlers (run fn a w) = overlap_handlers w"
  shows "overlap_dispatch run st
           = Some (Inr (fold (overlap_body run) (overlap_handlers (fst st)) st))"
  unfolding overlap_dispatch_def
  using for_live_stable [where sel = "\<lambda>st. overlap_handlers (fst st)" and f = "overlap_body run"
      and body = "\<lambda>h st. Some (Inr (overlap_body run h st))" and i = 0 and st = st]
    overlap_body_handlers [OF assms]
  by simp

lemma overlap_world_objs:
  "objs overlap_world 0 = GameSprite None (Rect 0 0 10 10) (0, 0, 255) (0, 0) None"
  "objs overlap_world (Suc 0) = GameSprite None (Rect 5 5 10 10) (0, 0, 255) (0, 0) None"
  by (simp_all add: overlap_world_def when_overlap_def no_images_def api_defs)

lemma overlap_inv_start: "overlap_inv 0 overlap_world"
  by (simp add: overlap_inv_def overlap_world_def when_overlap_def no_images_def api_defs)

lemma overlap_inv_physics:
  assumes "overlap_inv k w"
  shows "overlap_inv k (physics dt width height w)"
  using assms
  by (simp add: overlap_inv_def overlap_world_objs physics_defs GameSprite_def Rect_def)

lemma overlap_inv_drain:
  assumes "overlap_inv k w" "QUIT \<notin> set evs"
  shows "drain counting evs ((w, tr), running) = Some (Inr ((w, tr), running))"
  using assms(2)
proof (induction evs)
  case Nil
  show ?case by simp
next
  case (Cons e evs)
  then show ?case using assms(1)
    by (cases e) (simp_all add: overlap_inv_def click_dispatch_def for_items.simps bind_res_def)
qed

lemma draw_pass_no_calls: "OverlapCall a b fn \<notin> set (draw_pass w)"
  by (auto simp: draw_pass_def draw_sprite_def split: option.splits)

lemma overlap_inv_frame:
  assumes inv: "overlap_inv k w" and noquit: "QUIT \<notin> set (events inp)"
  shows "\<exists>w' tr'. frame counting width height inp (w, tr) = Some (Inr ((w', tr'), True))
           \<and> overlap_inv (Suc k) w' \<and> overlap_calls tr' = Suc (overlap_calls tr)"
proof -
  let ?dt = "real (tick inp) / 1000"
  let ?w1 = "physics ?dt width height w"
  have p: "overlap_inv k ?w1" using inv by (rule overlap_inv_physics)
  have keys: "key_dispatch counting (pressed inp) (w, tr) = Some (Inr (w, tr))"
    using inv by (simp add: key_dispatch_def overlap_inv_def for_items.simps)
  have hooks: "game_update_dispatch counting (pressed inp) ?dt (w, tr) = Some (Inr (w, tr))"
    using inv by (simp add: game_update_dispatch_def overlap_inv_def for_live.simps)
  have ov: "overlap_dispatch counting (?w1, tr)
              = Some (Inr (?w1\<lparr>user := Suc (user ?w1)\<rparr>, tr @ [OverlapCall 0 1 0]))"
    using p
    by (simp add: overlap_dispatch_def overlap_inv_def for_live.simps overlap_body_def
        overlap_world_objs counting_def GameSprite_def Rect_def colliderect_def)
  have upd: "update_dispatch counting (?w1\<lparr>user := Suc (user ?w1)\<rparr>, tr @ [OverlapCall 0 1 0])
              = Some (Inr (?w1\<lparr>user := Suc (user ?w1)\<rparr>, tr @ [OverlapCall 0 1 0]))"
    using p by (simp add: update_dispatch_def overlap_inv_def for_live.simps)
  have fr: "frame counting width height inp (w, tr)
          = Some (Inr (render (?w1\<lparr>user := Suc (user ?w1)\<rparr>, tr @ [OverlapCall 0 1 0]), True))"
    using overlap_inv_drain [OF inv noquit, of tr True] keys hooks ov upd inv
    by (simp add: frame_def running_frame_def bind_res_def overlap_inv_def)
  have i: "overlap_inv (Suc k) (fst (render (?w1\<lparr>user := Suc (user ?w1)\<rparr>, tr @ [OverlapCall 0 1 0])))"
    using p by (simp add: render_def overlap_inv_def)
  have c: "overlap_calls (snd (render (?w1\<lparr>user := Suc (user ?w1)\<rparr>, tr @ [OverlapCall 0 1 0])))
             = Suc (overlap_calls tr)"
    using draw_pass_no_calls [of 0 1 0]
    by (auto simp: render_def overlap_calls_def filter_empty_conv)
  show ?thesis
    using fr i c by (metis prod.collapse)
qed

lemma overlap_inv_loop:
  assumes "overlap_inv k w" "\<forall>inp\<in>set inps. QUIT \<notin> set (events inp)"
  shows "\<exists>w' tr'. main_loop counting width height inps (w, tr) = Some (Inr (w', tr'))
           \<and> user w' = k + length inps \<and> overlap_calls tr' = overlap_calls tr + length inps"
  using assms
proof (induction inps arbitrary: k w tr)
  case Nil
  then show ?case by (simp add: overlap_inv_def)
next
  case (Cons inp inps)
  from overlap_inv_frame [OF Cons.prems(1), of inp width height tr] Cons.prems(2)
  obtain w1 tr1 where f: "frame counting width height inp (w, tr) = Some (Inr ((w1, tr1), True))"
    and i: "overlap_inv (Suc k) w1" and c: "overlap_calls tr1 = Suc (overlap_calls tr)"
    by auto
  from Cons.IH [OF i, of tr1] Cons.prems(2)
  obtain w' tr' where "main_loop counting width height inps (w1, tr1) = Some (Inr (w', tr'))"
    "user w' = Suc k + length inps" "overlap_calls tr' = overlap_calls tr1 + length inps"
    by auto
  then show ?case using f c by (simp add: bind_res_def)
qed

text \<open>
  C7: the overlap notifier goes through the registered triples once each, in registration
  order, and invokes the callback of a triple exactly when, at that moment, both sprites are
  alive and their rectangles overlap; nothing is remembered from earlier frames. With two
  stationary overlapping live sprites and a callback that increments a counter, the counter
  and the number of invocations equal the number of frames. Callbacks are assumed not to
  register overlap triples while the notifier runs.
\<close>

theorem C7_overlap_every_frame:
  assumes stable: "\<forall>fn a w. overlap_handlers (run fn a w) = overlap_handlers w"
    and noquit: "\<forall>inp\<in>set inps. QUIT \<notin> set (events inp)"
  shows "overlap_dispatch run st
           = Some (Inr (fold (overlap_body run) (overlap_handlers (fst st)) st))
       \<and> overlap_body run (a, b, fn) (w, tr)
           = (if alive (objs w a) \<and> alive (objs w b)
                 \<and> colliderect (rect (objs w a)) (rect (objs w b))
              then (run fn (SpritesArg a b) w, tr @ [OverlapCall a b fn])
              else (w, tr))
       \<and> (\<exists>w' tr'. main_loop counting width height inps (overlap_world, []) = Some (Inr (w', tr'))
             \<and> user w' = length inps \<and> overlap_calls tr' = length inps)"
proof -
  from overlap_inv_loop [OF overlap_inv_start noquit, of width height "[]"]
  have "\<exists>w' tr'. main_loop counting width height inps (overlap_world, []) = Some (Inr (w', tr'))
             \<and> user w' = length inps \<and> overlap_calls tr' = length inps"
    by (simp add: overlap_calls_def)
  then show ?thesis
    using overlap_dispatch_fold [OF stable, of st]
    by (simp add: overlap_body_def)
qed

theorem C7_overlap_every_frame_witness:
  "overlap_dispatch counting (overlap_world, [])
     = Some (Inr (overlap_world\<lparr>user := 1\<rparr>, [OverlapCall 0 1 0]))
 \<and> alive (objs overlap_world 0) \<and> alive (objs overlap_world 1)
 \<and> colliderect (rect (objs overlap_world 0)) (rect (objs overlap_world 1))
 \<and> (\<exists>w' tr'. main_loop counting 640 480 [still_frame, still_frame, still_frame] (overlap_world, [])
                 = Some (Inr (w', tr'))
       \<and> user w' = 3 \<and> overlap_calls tr' = 3)"
proof -
  have st: "\<forall>fn a w. overlap_handlers (counting fn a w) = overlap_handlers w"
    by (simp add: counting_def)
  have nq: "\<forall>inp\<in>set [still_frame, still_frame, still_frame]. QUIT \<notin> set (events inp)"
    by (simp add: still_frame_def)
  have f: "overlap_handlers overlap_world = [(0, 1, 0)]" "user overlap_world = 0"
    using overlap_inv_start by (simp_all add: overlap_inv_def)
  have body: "overlap_body counting (0, 1, 0) (overlap_world, [])
                = (overlap_world\<lparr>user := 1\<rparr>, [OverlapCall 0 1 0])"
    using f by (simp add: overlap_body_def overlap_world_objs GameSprite_def Rect_def
        colliderect_def counting_def)
  have live: "alive (objs overlap_world 0)" "alive (objs overlap_world 1)"
    "colliderect (rect (objs overlap_world 0)) (rect (objs overlap_world 1))"
    by (simp_all add: overlap_world_objs GameSprite_def Rect_def colliderect_def)
  from C7_overlap_every_frame [OF st nq, of "(overlap_world, [])" 0 1 0 overlap_world "[]" 640 480]
    f body live
  show ?thesis
    by (simp add: numeral_3_eq_3)
qed

section \<open>Dead sprites\<close>

lemma rendered_append: "rendered (xs @ ys) = rendered xs @ rendered ys"
  by (induction xs) (simp_all split: option.split)

lemma rendered_draw_pass: "rendered (draw_pass w) = sprites w"
proof -
  have a: "rendered (map (draw_sprite w) xs) = xs" for xs
    by (induction xs) (simp_all add: draw_sprite_def split: option.split)
  have b: "rendered (map (\<lambda>(x, y, r). Circle x y r) xs) = []" for xs
    by (induction xs) auto
  have c: "rendered (map (\<lambda>(txt, x, y, sz). Text txt x y sz) xs) = []" for xs
    by (induction xs) auto
  show ?thesis
    by (simp add: draw_pass_def rendered_append a b c)
qed

lemma expired_world_fields:
  "\<not> alive (objs expired_world 0)" "alive (objs expired_world 1)" "alive (objs expired_world 2)"
  "sprites expired_world = [0, 1, 2]"
  "rect (objs expired_world 0) = Rect 0 0 8 8"
  "rect (objs expired_world 1) = Rect 4 4 10 10"
  "rect (objs expired_world 2) = Rect 6 6 10 10"
  "overlap_handlers expired_world = [(0, 1, 4), (1, 2, 5)]"
  "click_handlers expired_world = [(0, [7])]"
  by (simp_all add: expired_world_def graveyard_world_def when_click_def when_overlap_def
      no_images_def api_defs physics_defs)

text \<open>
  C1, as stated, fails. After a physics step in which the projectile of the scenario expires,
  its alive flag is false and it is still in the registry: the draw pass of that frame
  renders it. Its click callback is invoked as well when a click lands in its rectangle.
\<close>

theorem C1_counterexample:
  "\<not> alive (objs expired_world 0)
 \<and> rendered (draw_pass expired_world) = [0, 1, 2]
 \<and> click_dispatch idle (3, 3) (expired_world, []) = Some (Inr (expired_world, [ClickCall 0 7]))"
  using expired_world_fields
  by (simp add: rendered_draw_pass click_dispatch_def for_items.simps for_live.simps
      handlers_for_def collidepoint_def idle_def Rect_def)

text \<open>The notifier and a sprite whose flag is false: when the callbacks that the notifier
  invokes keep the list of triples, the sprite and its flag, the notifier ends, having gone
  through the triples once, and has invoked no callback for a triple naming the sprite.\<close>

lemma overlap_dispatch_dead:
  assumes dead: "\<not> alive (objs w s)" and alloc: "s < next_id w"
    and keeps: "\<forall>(a, b, fn) \<in> set (overlap_handlers w). \<forall>w1.
        overlap_handlers w1 = overlap_handlers w \<and> s < next_id w1 \<and> \<not> alive (objs w1 s)
          \<and> alive (objs w1 a) \<and> alive (objs w1 b) \<longrightarrow>
        overlap_handlers (run fn (SpritesArg a b) w1) = overlap_handlers w
          \<and> s < next_id (run fn (SpritesArg a b) w1)
          \<and> \<not> alive (objs (run fn (SpritesArg a b) w1) s)"
  shows "\<exists>w' tr. overlap_dispatch run (w, []) = Some (Inr (w', tr))
           \<and> (w', tr) = fold (overlap_body run) (overlap_handlers w) (w, [])
           \<and> \<not> alive (objs w' s) \<and> s < next_id w'
           \<and> overlap_handlers w' = overlap_handlers w
           \<and> (\<forall>a b fn. OverlapCall a b fn \<in> set tr \<longrightarrow> a \<noteq> s \<and> b \<noteq> s)"
proof -
  let ?P = "\<lambda>st. overlap_handlers (fst st) = overlap_handlers w \<and> s < next_id (fst st)
      \<and> \<not> alive (objs (fst st) s)
      \<and> (\<forall>a b fn. OverlapCall a b fn \<in> set (snd st) \<longrightarrow> a \<noteq> s \<and> b \<noteq> s)"
  have step: "?P (overlap_body run h st) \<and> overlap_handlers (fst (overlap_body run h st))
                = overlap_handlers (fst st)"
    if p: "?P st" and h: "h \<in> set (overlap_handlers (fst st))" for h st
  proof -
    obtain a b fn where habc: "h = (a, b, fn)" by (cases h)
    show ?thesis
    proof (cases "alive (objs (fst st) a) \<and> alive (objs (fst st) b)
           \<and> colliderect (rect (objs (fst st) a)) (rect (objs (fst st) b))")
      case False
      then show ?thesis using p by (auto simp: overlap_body_def habc)
    next
      case True
      have mem: "(a, b, fn) \<in> set (overlap_handlers w)"
        using h p habc by simp
      from keeps mem have "\<forall>w1.
        overlap_handlers w1 = overlap_handlers w \<and> s < next_id w1 \<and> \<not> alive (objs w1 s)
          \<and> alive (objs w1 a) \<and> alive (objs w1 b) \<longrightarrow>
        overlap_handlers (run fn (SpritesArg a b) w1) = overlap_handlers w
          \<and> s < next_id (run fn (SpritesArg a b) w1)
          \<and> \<not> alive (objs (run fn (SpritesArg a b) w1) s)"
        by blast
      then have k: "overlap_handlers (run fn (SpritesArg a b) (fst st)) = overlap_handlers w
          \<and> s < next_id (run fn (SpritesArg a b) (fst st))
          \<and> \<not> alive (objs (run fn (SpritesArg a b) (fst st)) s)"
        using p True by blast
      have ne: "a \<noteq> s" "b \<noteq> s" using True p by auto
      show ?thesis
        using True k p ne by (auto simp: overlap_body_def habc)
    qed
  qed
  have start: "?P (w, [])" using dead alloc by simp
  from for_live_invariant [where P = ?P and sel = "\<lambda>st. overlap_handlers (fst st)"
      and f = "overlap_body run" and body = "\<lambda>h st. Some (Inr (overlap_body run h st))"
      and i = 0 and st = "(w, [])", OF start step]
  have "overlap_dispatch run (w, [])
          = Some (Inr (fold (overlap_body run) (overlap_handlers w) (w, [])))
      \<and> ?P (fold (overlap_body run) (overlap_handlers w) (w, []))"
    by (simp add: overlap_dispatch_def)
  then show ?thesis
    by (metis prod.collapse)
qed

text \<open>When the callbacks may register triples the notifier need not end; when it does, it
  has invoked no callback for a triple naming the sprite.\<close>

lemma overlap_dispatch_dead_partial:
  assumes dead: "\<not> alive (objs w s)" and alloc: "s < next_id w"
    and keeps: "\<forall>a b fn w1. s < next_id w1 \<and> \<not> alive (objs w1 s)
          \<and> alive (objs w1 a) \<and> alive (objs w1 b) \<longrightarrow>
        s < next_id (run fn (SpritesArg a b) w1)
          \<and> \<not> alive (objs (run fn (SpritesArg a b) w1) s)"
    and res: "overlap_dispatch run (w, []) = Some (Inr (w', tr))"
  shows "\<not> alive (objs w' s) \<and> (\<forall>a b fn. OverlapCall a b fn \<in> set tr \<longrightarrow> a \<noteq> s \<and> b \<noteq> s)"
proof -
  let ?P = "\<lambda>st. s < next_id (fst st) \<and> \<not> alive (objs (fst st) s)
      \<and> (\<forall>a b fn. OverlapCall a b fn \<in> set (snd st) \<longrightarrow> a \<noteq> s \<and> b \<noteq> s)"
  have step: "?P (overlap_body run h st)" if p: "?P st" for h st
  proof -
    obtain a b fn where habc: "h = (a, b, fn)" by (cases h)
    show ?thesis
    proof (cases "alive (objs (fst st) a) \<and> alive (objs (fst st) b)
           \<and> colliderect (rect (objs (fst st) a)) (rect (objs (fst st) b))")
      case False
      then show ?thesis using p by (auto simp: overlap_body_def habc)
    next
      case True
      from keeps have k: "s < next_id (run fn (SpritesArg a b) (fst st))
          \<and> \<not> alive (objs (run fn (SpritesArg a b) (fst st)) s)"
        using p True by blast
      have ne: "a \<noteq> s" "b \<noteq> s" using True p by auto
      show ?thesis
        using True k p ne by (auto simp: overlap_body_def habc)
    qed
  qed
  have start: "?P (w, [])" using dead alloc by simp
  have step': "?P st'"
    if "?P st" "Some (Inr (overlap_body run h st)) = Some (Inr st')" for h st st'
    using step [OF that(1), of h] that(2) by simp
  have res': "for_live (\<lambda>st. overlap_handlers (fst st))
      (\<lambda>h st. Some (Inr (overlap_body run h st))) 0 (w, []) = Some (Inr (w', tr))"
    using res by (simp add: overlap_dispatch_def)
  have stepo: "\<forall>h st st'. ?P st \<longrightarrow> Some (Inr (overlap_body run h st)) = Some (Inr st') \<longrightarrow> ?P st'"
    using step' by blast
  note c = mp [OF mp [OF for_live_partial [where P = ?P, OF res'] start] stepo]
  then have "?P (w', tr)" by blast
  then show ?thesis by simp
qed

lemma shooter_keeps:
  "overlap_handlers (shooter fn (SpritesArg a b) w1) = overlap_handlers w1"
  "next_id (shooter fn (SpritesArg a b) w1) = Suc (next_id w1)"
  "s < next_id w1 \<Longrightarrow> objs (shooter fn (SpritesArg a b) w1) s = objs w1 s"
  "sprites (shooter fn (SpritesArg a b) w1) = sprites w1 @ [next_id w1]"
  by (simp_all add: shooter_def projectile_from_def sprite_def Let_def)

text \<open>
  C1 (amended): once the alive flag of a sprite is false, the next physics step removes it
  from the registry without simulating it (its attributes are unchanged), and the overlap
  notifier invokes no callback for a triple naming it while the flag stays false. The draw
  pass renders exactly the sprites of the registry, whatever their flag: a sprite that died
  during or after the physics step of a frame is still drawn in that frame, and it is not
  drawn once a physics step has removed it. For the notifier, "while the flag stays false"
  is a condition on the callbacks it invokes, on states where the sprite exists with its flag
  false and both sprites of the triple are alive: they leave the sprite in existence with
  its flag false; they may create sprites and change anything else. When, in addition, the
  callbacks of the registered triples register no overlap triple, the notifier ends and has
  gone through the registered triples once each, in order. When callbacks do register
  triples, the loop runs over the growing list and need not end; every run that ends has
  invoked no callback naming the sprite.
\<close>

theorem C1_dead_sprite:
  assumes dead: "\<not> alive (objs w s)"
  shows "s \<notin> set (sprites (physics dt width height w))
       \<and> objs (physics dt width height w) s = objs w s
       \<and> rendered (draw_pass w) = sprites w
       \<and> s \<notin> set (rendered (draw_pass (physics dt width height w)))
       \<and> (s < next_id w
          \<and> (\<forall>(a, b, fn) \<in> set (overlap_handlers w). \<forall>w1.
                overlap_handlers w1 = overlap_handlers w \<and> s < next_id w1 \<and> \<not> alive (objs w1 s)
                  \<and> alive (objs w1 a) \<and> alive (objs w1 b) \<longrightarrow>
                overlap_handlers (run fn (SpritesArg a b) w1) = overlap_handlers w
                  \<and> s < next_id (run fn (SpritesArg a b) w1)
                  \<and> \<not> alive (objs (run fn (SpritesArg a b) w1) s))
          \<longrightarrow> (\<exists>w' tr. overlap_dispatch run (w, []) = Some (Inr (w', tr))
                 \<and> (w', tr) = fold (overlap_body run) (overlap_handlers w) (w, [])
                 \<and> \<not> alive (objs w' s)
                 \<and> (\<forall>a b fn. OverlapCall a b fn \<in> set tr \<longrightarrow> a \<noteq> s \<and> b \<noteq> s)))
       \<and> (s < next_id w
          \<and> (\<forall>a b fn w1. s < next_id w1 \<and> \<not> alive (objs w1 s)
                  \<and> alive (objs w1 a) \<and> alive (objs w1 b) \<longrightarrow>
                s < next_id (run fn (SpritesArg a b) w1)
                  \<and> \<not> alive (objs (run fn (SpritesArg a b) w1) s))
          \<longrightarrow> (\<forall>w' tr. overlap_dispatch run (w, []) = Some (Inr (w', tr)) \<longrightarrow>
                 \<not> alive (objs w' s)
                 \<and> (\<forall>a b fn. OverlapCall a b fn \<in> set tr \<longrightarrow> a \<noteq> s \<and> b \<noteq> s)))"
proof -
  have ov: "\<exists>w' tr. overlap_dispatch run (w, []) = Some (Inr (w', tr))
                 \<and> (w', tr) = fold (overlap_body run) (overlap_handlers w) (w, [])
                 \<and> \<not> alive (objs w' s)
                 \<and> (\<forall>a b fn. OverlapCall a b fn \<in> set tr \<longrightarrow> a \<noteq> s \<and> b \<noteq> s)"
    if "s < next_id w" and "\<forall>(a, b, fn) \<in> set (overlap_handlers w). \<forall>w1.
                overlap_handlers w1 = overlap_handlers w \<and> s < next_id w1 \<and> \<not> alive (objs w1 s)
                  \<and> alive (objs w1 a) \<and> alive (objs w1 b) \<longrightarrow>
                overlap_handlers (run fn (SpritesArg a b) w1) = overlap_handlers w
                  \<and> s < next_id (run fn (SpritesArg a b) w1)
                  \<and> \<not> alive (objs (run fn (SpritesArg a b) w1) s)"
    using overlap_dispatch_dead [OF dead that] by blast
  have ovp: "\<not> alive (objs w' s)
                 \<and> (\<forall>a b fn. OverlapCall a b fn \<in> set tr \<longrightarrow> a \<noteq> s \<and> b \<noteq> s)"
    if "s < next_id w" and "\<forall>a b fn w1. s < next_id w1 \<and> \<not> alive (objs w1 s)
                  \<and> alive (objs w1 a) \<and> alive (objs w1 b) \<longrightarrow>
                s < next_id (run fn (SpritesArg a b) w1)
                  \<and> \<not> alive (objs (run fn (SpritesArg a b) w1) s)"
      and "overlap_dispatch run (w, []) = Some (Inr (w', tr))" for w' tr
    using overlap_dispatch_dead_partial [OF dead that] .
  have rest: "s \<notin> set (sprites (physics dt width height w))
       \<and> objs (physics dt width height w) s = objs w s
       \<and> rendered (draw_pass w) = sprites w
       \<and> s \<notin> set (rendered (draw_pass (physics dt width height w)))"
    using physics_dead [OF dead, of dt width height]
    by (simp add: rendered_draw_pass)
  from rest ov ovp show ?thesis
    by blast
qed

text \<open>An instance with callbacks that create sprites: the expired projectile is named by the
  first triple and overlaps its partner; only the callback of the second triple is invoked,
  and the projectile that it fires is appended to the registry.\<close>

theorem C1_dead_sprite_witness:
  "\<not> alive (objs expired_world 0)
 \<and> 0 < next_id expired_world
 \<and> overlap_handlers expired_world = [(0, 1, 4), (1, 2, 5)]
 \<and> colliderect (rect (objs expired_world 0)) (rect (objs expired_world 1))
 \<and> 0 \<notin> set (sprites (physics (1 / 60) 640 480 expired_world))
 \<and> objs (physics (1 / 60) 640 480 expired_world) 0 = objs expired_world 0
 \<and> 0 \<notin> set (rendered (draw_pass (physics (1 / 60) 640 480 expired_world)))
 \<and> (\<exists>w' tr. overlap_dispatch shooter (expired_world, []) = Some (Inr (w', tr))
       \<and> tr = [OverlapCall 1 2 5]
       \<and> sprites w' = [0, 1, 2, 3]
       \<and> \<not> alive (objs w' 0))"
proof -
  have n: "next_id expired_world = 3"
    by (simp add: expired_world_def graveyard_world_def when_click_def when_overlap_def
      no_images_def api_defs physics_defs)
  have keeps: "\<forall>(a, b, fn) \<in> set (overlap_handlers expired_world). \<forall>w1.
        overlap_handlers w1 = overlap_handlers expired_world \<and> 0 < next_id w1
          \<and> \<not> alive (objs w1 0) \<and> alive (objs w1 a) \<and> alive (objs w1 b) \<longrightarrow>
        overlap_handlers (shooter fn (SpritesArg a b) w1) = overlap_handlers expired_world
          \<and> 0 < next_id (shooter fn (SpritesArg a b) w1)
          \<and> \<not> alive (objs (shooter fn (SpritesArg a b) w1) 0)"
    using expired_world_fields(8) by (auto simp: shooter_keeps)
  have c: "colliderect (rect (objs expired_world 0)) (rect (objs expired_world 1))"
    "colliderect (rect (objs expired_world 1)) (rect (objs expired_world 2))"
    using expired_world_fields by (simp_all add: colliderect_def Rect_def)
  have ev: "fold (overlap_body shooter) (overlap_handlers expired_world) (expired_world, [])
      = (shooter 5 (SpritesArg 1 2) expired_world, [OverlapCall 1 2 5])"
    using expired_world_fields c
    by (simp add: overlap_body_def)
  have sh: "sprites (shooter 5 (SpritesArg 1 2) expired_world) = [0, 1, 2, 3]"
    "\<not> alive (objs (shooter 5 (SpritesArg 1 2) expired_world) 0)"
    using expired_world_fields n by (simp_all add: shooter_keeps)
  have pos: "0 < next_id expired_world" using n by simp
  have keeps_all: "\<forall>a b fn w1. 0 < next_id w1 \<and> \<not> alive (objs w1 0)
        \<and> alive (objs w1 a) \<and> alive (objs w1 b) \<longrightarrow>
      0 < next_id (shooter fn (SpritesArg a b) w1)
        \<and> \<not> alive (objs (shooter fn (SpritesArg a b) w1) 0)"
    by (simp add: shooter_keeps)
  from C1_dead_sprite [OF expired_world_fields(1), of "1 / 60" 640 480 shooter] keeps keeps_all pos
  have "0 \<notin> set (sprites (physics (1 / 60) 640 480 expired_world))
 \<and> objs (physics (1 / 60) 640 480 expired_world) 0 = objs expired_world 0
 \<and> 0 \<notin> set (rendered (draw_pass (physics (1 / 60) 640 480 expired_world)))
 \<and> (\<exists>w' tr. overlap_dispatch shooter (expired_world, []) = Some (Inr (w', tr))
       \<and> (w', tr) = (shooter 5 (SpritesArg 1 2) expired_world, [OverlapCall 1 2 5]))"
    unfolding ev by blast
  with sh n expired_world_fields(1,8) c(1) show ?thesis
    by auto
qed

section \<open>Restart\<close>

lemma bind_res_Inr: "bind_res (Some (Inr x)) f = f x"
  by (simp add: bind_res_def)

lemma bind_res_assoc: "bind_res (bind_res m f) g = bind_res m (\<lambda>x. bind_res (f x) g)"
  by (simp add: bind_res_def split: option.split sum.split)

lemma start_body_stable:
  assumes "\<forall>fn a w. game_start_handlers (run fn a w) = game_start_handlers w"
  shows "run_start_handlers run st
       = Some (Inr (fold (\<lambda>fn st. (run fn NoArgs (fst st), snd st @ [StartCall fn]))
                      (game_start_handlers (fst st)) st))"
  unfolding run_start_handlers_def
  using for_live_stable [where sel = "\<lambda>st. game_start_handlers (fst st)"
      and f = "\<lambda>fn st. (run fn NoArgs (fst st), snd st @ [StartCall fn])"
      and body = "\<lambda>fn (w, tr). Some (Inr (run fn NoArgs w, tr @ [StartCall fn]))"
      and i = 0 and st = st] assms
  by (simp add: case_prod_unfold)

lemma start_fold:
  "fold (\<lambda>fn st. (run fn NoArgs (fst st), snd st @ [StartCall fn])) fns (w, tr)
     = (fold (\<lambda>fn. run fn NoArgs) fns w, tr @ map StartCall fns)"
  by (induction fns arbitrary: w tr) simp_all

lemma drain_game_over:
  assumes "game_over_flag (fst st)" "KEYDOWN K_SPACE \<notin> set pre"
  shows "drain run (pre @ evs) (st, running) = drain run evs (st, running \<and> QUIT \<notin> set pre)"
  using assms(2)
proof (induction pre arbitrary: running)
  case Nil
  show ?case by simp
next
  case (Cons e pre)
  then show ?case using assms(1) by (cases e) auto
qed

lemma lost_world_fields:
  "game_over_flag lost_world" "game_start_handlers lost_world = [0]"
  "sprites lost_world = [0, 1, 2]" "draw_commands lost_world = [(1, 2, 3)]"
  "text_commands lost_world = [(''Score'', 10, 10, 24)]"
  "key_handlers lost_world = [(K_SPACE, [1])]" "click_handlers lost_world = [(0, [7])]"
  "overlap_handlers lost_world = [(0, 1, 4), (1, 2, 5)]"
  "update_handlers lost_world = [3]" "game_update_handlers lost_world = [Hook 2]"
  "next_id lost_world = 3" "platforms lost_world = []"
  by (simp_all add: lost_world_def graveyard_world_def game_over_def write_text_def draw_circle_def
      when_update_def on_game_update_def when_key_def on_game_start_def when_click_def
      when_overlap_def no_images_def api_defs)

text \<open>
  C8: when the loop meets a KEYDOWN event for SPACE while the game-over flag is set, it
  empties the sprite registry and the buffers of draw and text commands, clears the flag and
  leaves every registration table as it is; it then invokes every on-start callback once,
  in registration order, on that state, and ends the event loop. Callbacks are assumed not
  to register on-start callbacks while they are being run.
\<close>

theorem C8_restart:
  assumes flag: "game_over_flag w"
    and stable: "\<forall>fn a w. game_start_handlers (run fn a w) = game_start_handlers w"
  shows "drain run (KEYDOWN K_SPACE # evs) ((w, tr), running)
           = Some (Inr ((fold (\<lambda>fn. run fn NoArgs) (game_start_handlers w)
                           (w\<lparr>sprites := [], draw_commands := [], text_commands := [],
                              game_over_flag := False\<rparr>),
                         tr @ map StartCall (game_start_handlers w)),
                        running))
       \<and> key_handlers (w\<lparr>sprites := [], draw_commands := [], text_commands := [],
                          game_over_flag := False\<rparr>) = key_handlers w
       \<and> click_handlers (w\<lparr>sprites := [], draw_commands := [], text_commands := [],
                          game_over_flag := False\<rparr>) = click_handlers w
       \<and> overlap_handlers (w\<lparr>sprites := [], draw_commands := [], text_commands := [],
                          game_over_flag := False\<rparr>) = overlap_handlers w
       \<and> update_handlers (w\<lparr>sprites := [], draw_commands := [], text_commands := [],
                          game_over_flag := False\<rparr>) = update_handlers w
       \<and> game_update_handlers (w\<lparr>sprites := [], draw_commands := [], text_commands := [],
                          game_over_flag := False\<rparr>) = game_update_handlers w
       \<and> game_start_handlers (w\<lparr>sprites := [], draw_commands := [], text_commands := [],
                          game_over_flag := False\<rparr>) = game_start_handlers w"
  using flag start_body_stable [OF stable]
  by (simp add: restart_def bind_res_def start_fold)

theorem C8_restart_witness:
  "game_over_flag lost_world
 \<and> sprites lost_world = [0, 1, 2]
 \<and> draw_commands lost_world = [(1, 2, 3)]
 \<and> text_commands lost_world = [(''Score'', 10, 10, 24)]
 \<and> (case drain respawn [KEYDOWN K_SPACE, QUIT] ((lost_world, []), True) of
       Some (Inr ((w', tr), running)) \<Rightarrow>
         tr = [StartCall 0] \<and> running \<and> sprites w' = [3]
       \<and> rect (objs w' 3) = Rect 300 430 40 40
       \<and> draw_commands w' = [] \<and> text_commands w' = [] \<and> \<not> game_over_flag w'
       \<and> key_handlers w' = key_handlers lost_world
       \<and> click_handlers w' = click_handlers lost_world
       \<and> overlap_handlers w' = overlap_handlers lost_world
       \<and> update_handlers w' = update_handlers lost_world
       \<and> game_update_handlers w' = game_update_handlers lost_world
       \<and> game_start_handlers w' = game_start_handlers lost_world
     | _ \<Rightarrow> False)"
proof -
  have st: "\<forall>fn a w. game_start_handlers (respawn fn a w) = game_start_handlers w"
    by (simp add: respawn_def no_images_def api_defs Let_def)
  from C8_restart [OF lost_world_fields(1) st, of "[QUIT]" "[]" True]
  have e: "drain respawn [KEYDOWN K_SPACE, QUIT] ((lost_world, []), True)
         = Some (Inr ((fold (\<lambda>fn. respawn fn NoArgs) (game_start_handlers lost_world)
                           (lost_world\<lparr>sprites := [], draw_commands := [], text_commands := [],
                              game_over_flag := False\<rparr>),
                         [] @ map StartCall (game_start_handlers lost_world)), True))"
    by (rule conjunct1)
  show ?thesis
    by (subst e) (simp add: lost_world_fields respawn_def no_images_def api_defs Let_def)
qed

text \<open>
  C2, as stated, fails. In the iteration that drains the restart key-press, the loop goes
  on after the reset: the held-key callback of SPACE, the pre-physics hook, the overlap
  callbacks and the post-physics hook are all invoked, and the physics step moves the
  sprite that the on-start callback has just created (from y = 430 to y = 380) before it is
  drawn.
\<close>

theorem C2_counterexample:
  "game_over_flag lost_world
 \<and> (case frame respawn 640 480 restart_input (lost_world, []) of
       Some (Inr ((w', tr), running)) \<Rightarrow>
         tr = [StartCall 0, KeyCall K_SPACE 1, GameUpdateCall (Hook 2) (1 / 2),
               OverlapCall 0 1 4, OverlapCall 1 2 5, UpdateCall 3,
               Background, FillSprite 3 (0, 200, 255) (Rect 300 380 40 40), Flip]
       \<and> rect (objs w' 3) = Rect 300 380 40 40
     | _ \<Rightarrow> False)"
  using lost_world_fields(1)
  by (simp add: frame_def restart_input_def restart_def run_start_handlers_def for_live.simps
      for_items.simps bind_res_def running_frame_def key_dispatch_def game_update_dispatch_def
      overlap_dispatch_def overlap_body_def update_dispatch_def render_def draw_pass_def
      draw_sprite_def call_hook_def handlers_for_def respawn_def
      lost_world_def graveyard_world_def game_over_def write_text_def draw_circle_def
      when_update_def on_game_update_def when_key_def on_game_start_def when_click_def
      when_overlap_def no_images_def api_defs physics_defs Let_def)

text \<open>
  C2 (amended): when a restart key-press (SPACE) is drained while the game-over flag is
  set, and no earlier event of that iteration was one, the reset and the on-start callbacks
  run and the remaining events of the iteration are dropped. If the flag is clear
  afterwards, the same iteration continues as a running frame on the reset state: held-key
  dispatch, pre-physics callbacks, physics step, overlap notification, post-physics
  callbacks, then rendering. The loop goes on unless a QUIT event preceded the key press.
\<close>

theorem C2_restart_frame:
  assumes flag: "game_over_flag w"
    and pre: "KEYDOWN K_SPACE \<notin> set pre"
    and rs: "restart run (w, tr) = Some (Inr st1)"
    and on: "\<not> game_over_flag (fst st1)"
  shows "frame run width height \<lparr>tick = t, events = pre @ KEYDOWN K_SPACE # post, pressed = held\<rparr> (w, tr)
       = bind_res (key_dispatch run held st1) (\<lambda>st2.
         bind_res (game_update_dispatch run held (real t / 1000) st2) (\<lambda>st3.
         bind_res (overlap_dispatch run (physics (real t / 1000) width height (fst st3), snd st3)) (\<lambda>st4.
         bind_res (update_dispatch run st4) (\<lambda>st5.
         Some (Inr (render st5, QUIT \<notin> set pre))))))"
proof -
  have "drain run (pre @ KEYDOWN K_SPACE # post) ((w, tr), True)
          = drain run (KEYDOWN K_SPACE # post) ((w, tr), True \<and> QUIT \<notin> set pre)"
    using flag pre by (intro drain_game_over) simp_all
  also have "\<dots> = Some (Inr (st1, QUIT \<notin> set pre))"
    using flag rs by (simp add: bind_res_Inr)
  finally have d: "drain run (pre @ KEYDOWN K_SPACE # post) ((w, tr), True)
          = Some (Inr (st1, QUIT \<notin> set pre))" .
  show ?thesis
    using on by (simp add: frame_def d running_frame_def bind_res_Inr bind_res_assoc)
qed

theorem C2_restart_frame_witness:
  "game_over_flag lost_world
 \<and> KEYDOWN K_SPACE \<notin> set [OtherEvent]
 \<and> (case restart respawn (lost_world, []) of
       Some (Inr st1) \<Rightarrow>
         \<not> game_over_flag (fst st1) \<and> sprites (fst st1) = [3] \<and> snd st1 = [StartCall 0]
       \<and> frame respawn 640 480 restart_input (lost_world, [])
           = bind_res (key_dispatch respawn (\<lambda>k. k = K_SPACE) st1) (\<lambda>st2.
             bind_res (game_update_dispatch respawn (\<lambda>k. k = K_SPACE) (real 500 / 1000) st2) (\<lambda>st3.
             bind_res (overlap_dispatch respawn (physics (real 500 / 1000) 640 480 (fst st3), snd st3)) (\<lambda>st4.
             bind_res (update_dispatch respawn st4) (\<lambda>st5.
             Some (Inr (render st5, True))))))
     | _ \<Rightarrow> False)"
proof -
  define st1 where "st1 = (respawn 0 NoArgs (lost_world\<lparr>sprites := [], draw_commands := [],
      text_commands := [], game_over_flag := False\<rparr>), [StartCall 0])"
  have st: "\<forall>fn a w. game_start_handlers (respawn fn a w) = game_start_handlers w"
    by (simp add: respawn_def no_images_def api_defs Let_def)
  have rs: "restart respawn (lost_world, []) = Some (Inr st1)"
    using start_body_stable [OF st, of "(lost_world\<lparr>sprites := [], draw_commands := [],
      text_commands := [], game_over_flag := False\<rparr>, [])"] lost_world_fields(2)
    by (simp add: restart_def st1_def)
  have on: "\<not> game_over_flag (fst st1)" and sp: "sprites (fst st1) = [3]" "snd st1 = [StartCall 0]"
    using lost_world_fields(11)
    by (simp_all add: st1_def respawn_def no_images_def api_defs Let_def)
  have pre: "KEYDOWN K_SPACE \<notin> set [OtherEvent]" by simp
  from C2_restart_frame [OF lost_world_fields(1) pre rs on, of 640 480 500 "[QUIT]" "\<lambda>k. k = K_SPACE"]
  have "frame respawn 640 480 restart_input (lost_world, [])
           = bind_res (key_dispatch respawn (\<lambda>k. k = K_SPACE) st1) (\<lambda>st2.
             bind_res (game_update_dispatch respawn (\<lambda>k. k = K_SPACE) (real 500 / 1000) st2) (\<lambda>st3.
             bind_res (overlap_dispatch respawn (physics (real 500 / 1000) 640 480 (fst st3), snd st3)) (\<lambda>st4.
             bind_res (update_dispatch respawn st4) (\<lambda>st5.
             Some (Inr (render st5, True))))))"
    by (simp add: restart_input_def)
  then show ?thesis
    using lost_world_fields(1) on sp by (simp add: rs)
qed

section \<open>Sprite creation\<close>

text \<open>
  C9: when \<^verbatim>\<open>sprite\<close> is called with a non-empty image path that is not in the cache and
  the load or scale raises an exception (an instance of \<^verbatim>\<open>Exception\<close>, with any message),
  the call returns normally: one line is printed, namely
  \<^verbatim>\<open>Oops! Can't find "<path>". Here's a rectangle instead.\<close> with typographic apostrophes
  (the bytes E2 80 99 in UTF-8) and the path between double quotes; the new sprite has no
  image and is drawn as a filled rectangle of the given colour, it is appended to the
  registry, it is alive and its age is 0. The cache is left as it was, and so is everything
  else in the state apart from the store, the registry and the output.
\<close>

theorem C9_image_failure:
  assumes path: "path \<noteq> []"
    and miss: "image_cache w (path, width, height) = None"
    and fail: "load path width height = Inl (StdException m)"
  shows "\<exists>w'. sprite load (Some path) x y width height col speed lt w = Inr (next_id w, w')
            \<and> sprites w' = sprites w @ [next_id w]
            \<and> next_id w' = Suc (next_id w)
            \<and> (\<forall>t. t \<noteq> next_id w \<longrightarrow> objs w' t = objs w t)
            \<and> image_surf (objs w' (next_id w)) = None
            \<and> color (objs w' (next_id w)) = col
            \<and> rect (objs w' (next_id w)) = Rect x y width height
            \<and> speed_x (objs w' (next_id w)) = fst speed
            \<and> speed_y (objs w' (next_id w)) = snd speed
            \<and> lifetime (objs w' (next_id w)) = lt
            \<and> draw_sprite w' (next_id w) = FillSprite (next_id w) col (Rect x y width height)
            \<and> alive (objs w' (next_id w))
            \<and> age (objs w' (next_id w)) = 0
            \<and> stdout w' = stdout w @
                 [''Oops! Can'' @ [CHR 0xE2, CHR 0x80, CHR 0x99] @ ''t find '' @ [CHR 0x22] @ path
                    @ [CHR 0x22] @ ''. Here'' @ [CHR 0xE2, CHR 0x80, CHR 0x99]
                    @ ''s a rectangle instead.'']
            \<and> image_cache w' = image_cache w
            \<and> platforms w' = platforms w
            \<and> game_over_flag w' = game_over_flag w"
  using assms
  by (simp add: sprite_def load_image_def GameSprite_def draw_sprite_def Let_def
      oops_message_def apostrophe_def)

theorem C9_image_failure_witness:
  "''ship.png'' \<noteq> []
 \<and> image_cache (initial_world ()) (''ship.png'', 40, 40) = None
 \<and> no_images ''ship.png'' 40 40 = Inl (StdException ''FileNotFoundError'')
 \<and> (\<exists>w'. sprite no_images (Some ''ship.png'') 300 430 40 40 (0, 200, 255) (0, 0) None (initial_world ())
              = Inr (0, w')
         \<and> sprites w' = [0]
         \<and> image_surf (objs w' 0) = None
         \<and> draw_sprite w' 0 = FillSprite 0 (0, 200, 255) (Rect 300 430 40 40)
         \<and> alive (objs w' 0) \<and> age (objs w' 0) = 0
         \<and> stdout w' =
              [''Oops! Can'' @ [CHR 0xE2, CHR 0x80, CHR 0x99] @ ''t find '' @ [CHR 0x22]
                 @ ''ship.png'' @ [CHR 0x22] @ ''. Here'' @ [CHR 0xE2, CHR 0x80, CHR 0x99]
                 @ ''s a rectangle instead.''])"
proof -
  have h: "''ship.png'' \<noteq> []" "image_cache (initial_world ()) (''ship.png'', 40, 40) = None"
    "no_images ''ship.png'' 40 40 = Inl (StdException ''FileNotFoundError'')"
    by (simp_all add: initial_world_def no_images_def)
  from C9_image_failure [where load = no_images and path = "''ship.png''" and width = 40
      and height = 40 and w = "initial_world ()" and m = "''FileNotFoundError''" and x = 300
      and y = 430 and col = "(0, 200, 255)" and speed = "(0, 0)" and lt = None, OF h] h
  show ?thesis
    by (auto simp: initial_world_def)
qed

end
